theory Spec2Isabelle
  imports Complex_Main "HOL-Library.Multiset"
begin

section \<open>JavaScript numbers\<close>

text \<open>
  The analysis code computes with JavaScript numbers (binary64).  A number is modelled as
  a real or one of the three special values, and every operation below follows the
  ECMAScript rule for the special values, so a division by zero is visible in the model as
  \<open>NaN\<close> or an infinity and never as the HOL value \<open>x / 0 = 0\<close>.  The operators
  \<open>+\<close>, \<open>-\<close>, \<open>*\<close> and \<open>/\<close> are exact on finite numbers: rounding to 53 bits and
  the sign of zero are not modelled.  Overflow is modelled by \<open>overflow\<close> and the
  operators \<open>add64\<close>, \<open>sub64\<close>, \<open>mul64\<close> and \<open>div64\<close> built on it; the opportunity
  scorer, whose inputs may be arbitrarily large, computes with these.
\<close>

datatype jsnum = Fin real | PInf | NInf | NaN

fun is_neg :: "jsnum \<Rightarrow> bool" where
  "is_neg (Fin a) = (a < 0)"
| "is_neg NInf = True"
| "is_neg PInf = False"
| "is_neg NaN = False"

definition inf_of_sign :: "bool \<Rightarrow> jsnum" where
  "inf_of_sign neg = (if neg then NInf else PInf)"

instantiation jsnum :: "{plus, minus, uminus, times, inverse, ord}"
begin

fun plus_jsnum :: "jsnum \<Rightarrow> jsnum \<Rightarrow> jsnum" where
  "Fin a + Fin b = Fin (a + b)"
| "NaN + _ = NaN"
| "_ + NaN = NaN"
| "PInf + NInf = NaN"
| "NInf + PInf = NaN"
| "PInf + _ = PInf"
| "_ + PInf = PInf"
| "NInf + _ = NInf"
| "_ + NInf = NInf"

fun uminus_jsnum :: "jsnum \<Rightarrow> jsnum" where
  "- Fin a = Fin (- a)"
| "- PInf = NInf"
| "- NInf = PInf"
| "- NaN = NaN"

definition minus_jsnum :: "jsnum \<Rightarrow> jsnum \<Rightarrow> jsnum" where
  "minus_jsnum a b = a + (- b)"

fun times_jsnum :: "jsnum \<Rightarrow> jsnum \<Rightarrow> jsnum" where
  "Fin a * Fin b = Fin (a * b)"
| "NaN * _ = NaN"
| "_ * NaN = NaN"
| "Fin a * y = (if a = 0 then NaN else inf_of_sign ((a < 0) \<noteq> is_neg y))"
| "x * Fin b = (if b = 0 then NaN else inf_of_sign (is_neg x \<noteq> (b < 0)))"
| "x * y = inf_of_sign (is_neg x \<noteq> is_neg y)"

fun divide_jsnum :: "jsnum \<Rightarrow> jsnum \<Rightarrow> jsnum" where
  "divide_jsnum (Fin a) (Fin b) =
     (if b = 0 then (if a = 0 then NaN else inf_of_sign (a < 0)) else Fin (a / b))"
| "divide_jsnum NaN _ = NaN"
| "divide_jsnum _ NaN = NaN"
| "divide_jsnum (Fin a) _ = Fin 0"
| "divide_jsnum x (Fin b) = inf_of_sign (is_neg x \<noteq> (b < 0))"
| "divide_jsnum _ _ = NaN"

definition inverse_jsnum :: "jsnum \<Rightarrow> jsnum" where
  "inverse_jsnum a = divide (Fin 1) a"

fun less_jsnum :: "jsnum \<Rightarrow> jsnum \<Rightarrow> bool" where
  "less_jsnum (Fin a) (Fin b) = (a < b)"
| "less_jsnum NaN _ = False"
| "less_jsnum _ NaN = False"
| "less_jsnum _ NInf = False"
| "less_jsnum PInf _ = False"
| "less_jsnum _ _ = True"

definition less_eq_jsnum :: "jsnum \<Rightarrow> jsnum \<Rightarrow> bool" where
  "less_eq_jsnum a b = (a < b \<or> (a = b \<and> a \<noteq> NaN))"

instance ..

end

text \<open>\<open>Math.min\<close> and \<open>Math.max\<close> of two arguments, and of a spread array.\<close>

definition Math_min :: "jsnum \<Rightarrow> jsnum \<Rightarrow> jsnum" where
  "Math_min a b = (if a = NaN \<or> b = NaN then NaN else if a < b then a else b)"

definition Math_max :: "jsnum \<Rightarrow> jsnum \<Rightarrow> jsnum" where
  "Math_max a b = (if a = NaN \<or> b = NaN then NaN else if b < a then a else b)"

definition Math_min_list :: "jsnum list \<Rightarrow> jsnum" where
  "Math_min_list xs = foldl Math_min PInf xs"

definition Math_max_list :: "jsnum list \<Rightarrow> jsnum" where
  "Math_max_list xs = foldl Math_max NInf xs"

fun Math_abs :: "jsnum \<Rightarrow> jsnum" where
  "Math_abs (Fin a) = Fin \<bar>a\<bar>"
| "Math_abs NaN = NaN"
| "Math_abs _ = PInf"

fun Math_sqrt :: "jsnum \<Rightarrow> jsnum" where
  "Math_sqrt (Fin a) = (if a < 0 then NaN else Fin (sqrt a))"
| "Math_sqrt PInf = PInf"
| "Math_sqrt _ = NaN"

text \<open>\<open>Math.pow(x, 2)\<close>.\<close>

definition Math_pow2 :: "jsnum \<Rightarrow> jsnum" where
  "Math_pow2 x = x * x"

text \<open>\<open>Math.round\<close> rounds to the nearest integer, a tie towards plus infinity.\<close>

fun Math_round :: "jsnum \<Rightarrow> jsnum" where
  "Math_round (Fin a) = Fin (of_int \<lfloor>a + 1 / 2\<rfloor>)"
| "Math_round x = x"

text \<open>
  \<open>parseFloat(x.toFixed(d))\<close>: the nearest multiple of \<open>10 ^ - d\<close>, a tie away from
  zero (\<open>toFixed\<close> rounds the magnitude and puts the sign back).
\<close>

definition round_dp :: "nat \<Rightarrow> real \<Rightarrow> real" where
  "round_dp d a =
     (if a < 0 then - (of_int \<lfloor>- a * 10 ^ d + 1 / 2\<rfloor> / 10 ^ d)
      else of_int \<lfloor>a * 10 ^ d + 1 / 2\<rfloor> / 10 ^ d)"

fun toFixed :: "nat \<Rightarrow> jsnum \<Rightarrow> jsnum" where
  "toFixed d (Fin a) = Fin (round_dp d a)"
| "toFixed d x = x"

text \<open>Truthiness of a number, \<open>x || d\<close> on numbers, and \<open>v || 0\<close>, \<open>v ?? 0\<close> on a
  nullable number.\<close>

fun truthy :: "jsnum \<Rightarrow> bool" where
  "truthy (Fin a) = (a \<noteq> 0)"
| "truthy NaN = False"
| "truthy _ = True"

definition js_or :: "jsnum \<Rightarrow> jsnum \<Rightarrow> jsnum" where
  "js_or x d = (if truthy x then x else d)"

fun or_zero :: "jsnum option \<Rightarrow> jsnum" where
  "or_zero None = Fin 0"
| "or_zero (Some x) = js_or x (Fin 0)"

fun nullish_zero :: "jsnum option \<Rightarrow> jsnum" where
  "nullish_zero None = Fin 0"
| "nullish_zero (Some x) = x"

text \<open>\<open>xs.reduce((a, b) => a + b, 0)\<close>.\<close>

definition js_sum :: "jsnum list \<Rightarrow> jsnum" where
  "js_sum xs = foldl (+) (Fin 0) xs"

definition js_length :: "'a list \<Rightarrow> jsnum" where
  "js_length xs = Fin (real (length xs))"

text \<open>
  Overflow.  Under round-to-nearest a result whose magnitude reaches
  \<open>2 ^ 1024 - 2 ^ 970\<close> (the largest double plus half a unit in its last place) becomes
  the infinity of its sign.
\<close>

definition overflow_bound :: real where
  "overflow_bound = 2 ^ 1024 - 2 ^ 970"

fun overflow :: "jsnum \<Rightarrow> jsnum" where
  "overflow (Fin a) = (if overflow_bound \<le> \<bar>a\<bar> then inf_of_sign (a < 0) else Fin a)"
| "overflow x = x"

definition add64 :: "jsnum \<Rightarrow> jsnum \<Rightarrow> jsnum" where
  "add64 a b = overflow (a + b)"

definition sub64 :: "jsnum \<Rightarrow> jsnum \<Rightarrow> jsnum" where
  "sub64 a b = overflow (a - b)"

definition mul64 :: "jsnum \<Rightarrow> jsnum \<Rightarrow> jsnum" where
  "mul64 a b = overflow (a * b)"

definition div64 :: "jsnum \<Rightarrow> jsnum \<Rightarrow> jsnum" where
  "div64 a b = overflow (a / b)"

section \<open>Trend classifier and descriptive statistics (index.ts)\<close>

datatype trend = Up | Down | Flat

text \<open>\<open>getTrend\<close>: an argument that is not a number (\<open>null\<close>, \<open>undefined\<close>) counts as 0.\<close>

definition getTrend :: "jsnum option \<Rightarrow> jsnum option \<Rightarrow> trend" where
  "getTrend latest previous =
     (let l = nullish_zero latest;
          p = nullish_zero previous;
          absPrev = Math_abs p;
          delta = l - p;
          threshold = (if Fin 0 < absPrev then absPrev * Fin 0.01 else Fin 1)
      in if threshold < delta then Up
         else if delta < - threshold then Down
         else Flat)"

record stats =
  avg :: jsnum
  stddev :: jsnum
  cov :: jsnum

definition basicStats :: "jsnum list \<Rightarrow> stats" where
  "basicStats values =
     (if values = [] then \<lparr>avg = Fin 0, stddev = Fin 0, cov = Fin 0\<rparr>
      else
        let avg = js_sum values / js_length values;
            variance = foldl (\<lambda>s v. s + Math_pow2 (v - avg)) (Fin 0) values / js_length values;
            stddev = Math_sqrt variance;
            cov = (if avg \<noteq> Fin 0 then stddev / avg else Fin 0)
        in \<lparr>avg = avg, stddev = stddev, cov = cov\<rparr>)"

section \<open>Validated records (validation/electricity.schemas.ts)\<close>

text \<open>
  A nullable number field is a \<open>jsnum option\<close>, \<open>None\<close> being \<open>null\<close>.  Field names that
  several schemas share carry a prefix here; \<open>value\<close> is \<open>demand_value\<close>.
\<close>

record CapacityByFuelData =
  cf_period :: string
  cf_stateid :: string
  energy_source_code :: string
  net_summer_capacity_mw :: "jsnum option"
  net_winter_capacity_mw :: "jsnum option"

record GenerationData =
  period :: string
  fueltypeid :: "string option"
  generation :: "jsnum option"
  total_consumption :: "jsnum option"

record RetailPriceData =
  rp_period :: string
  rp_stateid :: string
  sectorid :: string
  price :: "jsnum option"
  sales :: "jsnum option"

record RTODemandData =
  rto_period :: string
  respondent :: string
  series_type :: string
  demand_value :: "jsnum option"

section \<open>Derived metrics (types/energyStorage.types.ts)\<close>

record GridCapacityMetrics =
  totalCapacityMW :: jsnum
  renewableCapacityMW :: jsnum
  fossilCapacityMW :: jsnum
  renewablePenetration :: jsnum

record DemandSupplyMetrics =
  averageDemandMW :: jsnum
  peakDemandMW :: jsnum
  minimumDemandMW :: jsnum
  loadFactor :: jsnum
  demandVariabilityIndex :: jsnum

record RenewableIntegrationMetrics =
  solarCapacityMW :: jsnum
  windCapacityMW :: jsnum
  estimatedCurtailmentMWh :: jsnum
  renewableVariabilityIndex :: jsnum
  duckCurveSeverity :: jsnum

record GridStabilityMetrics =
  maxHourlyRampMW :: jsnum
  rampingFrequency :: jsnum
  frequencyRegulationNeed :: jsnum
  spinningReserveRequirement :: jsnum

record EconomicMetrics =
  averageRetailPriceCentsPerKWh :: jsnum
  priceVolatilityIndex :: jsnum
  peakOffPeakSpread :: jsnum
  estimatedArbitrageRevenue :: jsnum

record StorageOpportunityScore =
  overall :: jsnum
  peakShavingScore :: jsnum
  renewableIntegrationScore :: jsnum
  gridServicesScore :: jsnum
  economicScore :: jsnum

record EnergyStorageOpportunityMetrics =
  region :: string
  analysisDate :: string
  gridCapacity :: GridCapacityMetrics
  demandSupplyMetrics :: DemandSupplyMetrics
  renewableIntegration :: RenewableIntegrationMetrics
  gridStability :: GridStabilityMetrics
  economicOpportunity :: EconomicMetrics
  storageOpportunityScore :: StorageOpportunityScore

section \<open>EnergyStorageAnalyzer (analysis/energyStorageAnalyzer.ts)\<close>

subsection \<open>calculateGridCapacityMetrics\<close>

definition renewableSources :: "string list" where
  "renewableSources = [''SUN'', ''WND'', ''HYD'', ''GEO'', ''BIO'', ''WAS'']"

definition fossilSources :: "string list" where
  "fossilSources = [''NG'', ''COL'', ''PET'', ''OTH'']"

text \<open>The three running totals of the loop over the capacity records.\<close>

record capacity_totals =
  totalCapacity :: jsnum
  renewableCapacity :: jsnum
  fossilCapacity :: jsnum

definition capacity_step :: "capacity_totals \<Rightarrow> CapacityByFuelData \<Rightarrow> capacity_totals" where
  "capacity_step acc r =
     (let capacity = or_zero (net_summer_capacity_mw r);
          acc1 = acc\<lparr>totalCapacity := totalCapacity acc + capacity\<rparr>
      in if energy_source_code r \<in> set renewableSources
           then acc1\<lparr>renewableCapacity := renewableCapacity acc1 + capacity\<rparr>
         else if energy_source_code r \<in> set fossilSources
           then acc1\<lparr>fossilCapacity := fossilCapacity acc1 + capacity\<rparr>
         else acc1)"

definition calculateGridCapacityMetrics :: "CapacityByFuelData list \<Rightarrow> GridCapacityMetrics" where
  "calculateGridCapacityMetrics capacityData =
     (let acc = foldl capacity_step
                  \<lparr>totalCapacity = Fin 0, renewableCapacity = Fin 0, fossilCapacity = Fin 0\<rparr>
                  capacityData
      in \<lparr>totalCapacityMW = Math_round (totalCapacity acc),
          renewableCapacityMW = Math_round (renewableCapacity acc),
          fossilCapacityMW = Math_round (fossilCapacity acc),
          renewablePenetration =
            (if Fin 0 < totalCapacity acc
             then Math_round ((renewableCapacity acc / totalCapacity acc) * Fin 100)
             else Fin 0)\<rparr>)"

subsection \<open>calculateDemandSupplyMetrics\<close>

text \<open>
  The finite numeric values of the hourly series, in order:
  \<open>map(d => typeof d.value === "number" && Number.isFinite(d.value) ? d.value : null)\<close>
  followed by \<open>filter(v => v !== null)\<close>.
\<close>

definition finite_or_null :: "jsnum option \<Rightarrow> jsnum option" where
  "finite_or_null v = (case v of Some (Fin a) \<Rightarrow> Some (Fin a) | _ \<Rightarrow> None)"

definition numeric_series :: "RTODemandData list \<Rightarrow> jsnum list" where
  "numeric_series demandData = List.map_filter (\<lambda>d. finite_or_null (demand_value d)) demandData"

text \<open>
  The estimate from the generation records; the source writes it out twice, once for an
  empty demand array and once for a demand array without a finite value.
\<close>

definition generation_fallback :: "GenerationData list \<Rightarrow> DemandSupplyMetrics" where
  "generation_fallback generationData =
     (let totalGen = foldl (\<lambda>s g. s + or_zero (generation g)) (Fin 0) generationData;
          denom = js_or (js_length generationData) (Fin 1);
          avgGen = totalGen / denom
      in \<lparr>averageDemandMW = Math_round avgGen,
          peakDemandMW = Math_round (avgGen * Fin 1.2),
          minimumDemandMW = Math_round (avgGen * Fin 0.6),
          loadFactor = Fin 0.7,
          demandVariabilityIndex = Fin 0.15\<rparr>)"

definition calculateDemandSupplyMetrics ::
  "RTODemandData list \<Rightarrow> GenerationData list \<Rightarrow> DemandSupplyMetrics" where
  "calculateDemandSupplyMetrics demandData generationData =
     (if demandData = [] then generation_fallback generationData
      else
        let series = numeric_series demandData
        in if series = [] then generation_fallback generationData
           else
             let avgDemand = js_sum series / js_length series;
                 peakDemand = Math_max_list series;
                 minDemand = Math_min_list series;
                 variance = foldl (\<lambda>s d. s + Math_pow2 (d - avgDemand)) (Fin 0) series
                              / js_length series;
                 stdDev = Math_sqrt variance;
                 coefficientOfVariation =
                   (if avgDemand \<noteq> Fin 0 then stdDev / avgDemand else Fin 0)
             in \<lparr>averageDemandMW = Math_round avgDemand,
                 peakDemandMW = Math_round peakDemand,
                 minimumDemandMW = Math_round minDemand,
                 loadFactor = toFixed 3 (avgDemand / js_or peakDemand (Fin 1)),
                 demandVariabilityIndex = toFixed 3 coefficientOfVariation\<rparr>)"

subsection \<open>calculateRenewableMetrics\<close>

definition fuel_capacity :: "string \<Rightarrow> CapacityByFuelData list \<Rightarrow> jsnum" where
  "fuel_capacity code capacityData =
     foldl (\<lambda>s d. s + or_zero (net_summer_capacity_mw d)) (Fin 0)
       (filter (\<lambda>d. energy_source_code d = code) capacityData)"

definition calculateRenewableMetrics ::
  "CapacityByFuelData list \<Rightarrow> GenerationData list \<Rightarrow> RenewableIntegrationMetrics" where
  "calculateRenewableMetrics capacityData generationData =
     (let solarCapacity = fuel_capacity ''SUN'' capacityData;
          windCapacity = fuel_capacity ''WND'' capacityData;
          totalRenewableCapacity = solarCapacity + windCapacity;
          estimatedCurtailmentRate = Fin 0.03;
          hoursPerYear = Fin 8760;
          capacityFactor = Fin 0.35;
          estimatedCurtailment =
            totalRenewableCapacity * hoursPerYear * capacityFactor * estimatedCurtailmentRate;
          solarPenetration = solarCapacity / (solarCapacity + windCapacity + Fin 1);
          duckCurveSeverity = Math_min (solarPenetration * Fin 2) (Fin 1)
      in \<lparr>solarCapacityMW = Math_round solarCapacity,
          windCapacityMW = Math_round windCapacity,
          estimatedCurtailmentMWh = Math_round estimatedCurtailment,
          renewableVariabilityIndex = toFixed 3 (Fin 0.4 + solarPenetration * Fin 0.3),
          duckCurveSeverity = toFixed 3 duckCurveSeverity\<rparr>)"

subsection \<open>calculateGridStabilityMetrics\<close>

text \<open>The loop \<open>for (i = 1; i < series.length; i++) ramps.push(|series[i] - series[i-1]|)\<close>.\<close>

fun hourly_ramps :: "jsnum list \<Rightarrow> jsnum list" where
  "hourly_ramps (a # b # rest) = Math_abs (b - a) # hourly_ramps (b # rest)"
| "hourly_ramps _ = []"

definition calculateGridStabilityMetrics :: "RTODemandData list \<Rightarrow> GridStabilityMetrics" where
  "calculateGridStabilityMetrics demandData =
     (let series = numeric_series demandData
      in if length series < 2
         then \<lparr>maxHourlyRampMW = Fin 500,
               rampingFrequency = Fin 4,
               frequencyRegulationNeed = Fin 100,
               spinningReserveRequirement = Fin 300\<rparr>
         else
           let ramps = hourly_ramps series;
               maxRamp = (if ramps \<noteq> [] then Math_max_list ramps else Fin 0);
               avgDemand = js_sum series / js_length series;
               significantRampThreshold = avgDemand * Fin 0.05;
               significantRamps = js_length (filter (\<lambda>r. significantRampThreshold < r) ramps);
               rampingFrequency = (significantRamps / js_length series) * Fin 24;
               frequencyRegulation = avgDemand * Fin 0.01;
               spinningReserve = maxRamp * Fin 0.5
           in \<lparr>maxHourlyRampMW = Math_round maxRamp,
               rampingFrequency = toFixed 1 rampingFrequency,
               frequencyRegulationNeed = Math_round frequencyRegulation,
               spinningReserveRequirement = Math_round spinningReserve\<rparr>)"

subsection \<open>calculateEconomicMetrics\<close>

definition calculateEconomicMetrics ::
  "RetailPriceData list \<Rightarrow> DemandSupplyMetrics \<Rightarrow> EconomicMetrics" where
  "calculateEconomicMetrics priceData demandSupply =
     (if priceData = []
      then \<lparr>averageRetailPriceCentsPerKWh = Fin 10,
            priceVolatilityIndex = Fin 0.15,
            peakOffPeakSpread = Fin 50,
            estimatedArbitrageRevenue = Fin 50000\<rparr>
      else
        let prices = map (\<lambda>p. or_zero (price p)) priceData;
            avgPrice = js_sum prices / js_length prices;
            priceVariance = foldl (\<lambda>s p. s + Math_pow2 (p - avgPrice)) (Fin 0) prices
                              / js_length prices;
            priceStdDev = Math_sqrt priceVariance;
            priceVolatility = priceStdDev / avgPrice;
            peakOffPeakSpread = avgPrice * Fin 0.5 * Fin 10;
            storageHours = Fin 4;
            cyclesPerYear = Fin 300;
            efficiency = Fin 0.85;
            arbitrageRevenue = peakOffPeakSpread * storageHours * cyclesPerYear * efficiency
        in \<lparr>averageRetailPriceCentsPerKWh = toFixed 2 avgPrice,
            priceVolatilityIndex = toFixed 3 priceVolatility,
            peakOffPeakSpread = Math_round peakOffPeakSpread,
            estimatedArbitrageRevenue = Math_round arbitrageRevenue\<rparr>)"

subsection \<open>calculateOpportunityScores\<close>

text \<open>
  The four local constants \<open>peakShavingScore\<close>, \<open>renewableScore\<close>, \<open>gridServicesScore\<close>
  and \<open>economicScore\<close> of the source, as functions of the metrics they read: the rounded
  formulas before any clamping.  \<open>a * b + c * d\<close> of the source is
  \<open>add64 (mul64 a b) (mul64 c d)\<close>, and sums associate to the left.
\<close>

definition peakShaving_raw :: "DemandSupplyMetrics \<Rightarrow> jsnum" where
  "peakShaving_raw demandSupply = Math_round
     (add64 (mul64 (sub64 (Fin 1) (loadFactor demandSupply)) (Fin 50))
            (mul64 (demandVariabilityIndex demandSupply) (Fin 200)))"

definition renewable_raw :: "GridCapacityMetrics \<Rightarrow> RenewableIntegrationMetrics \<Rightarrow> jsnum" where
  "renewable_raw gridCap renewable = Math_round
     (add64 (add64 (mul64 (renewablePenetration gridCap) (Fin 0.5))
                   (mul64 (duckCurveSeverity renewable) (Fin 30)))
            (mul64 (Math_min (div64 (estimatedCurtailmentMWh renewable) (Fin 10000)) (Fin 1))
                   (Fin 20)))"

definition gridServices_raw :: "GridStabilityMetrics \<Rightarrow> jsnum" where
  "gridServices_raw stability = Math_round
     (add64 (add64 (mul64 (Math_min (div64 (maxHourlyRampMW stability) (Fin 1000)) (Fin 1))
                          (Fin 40))
                   (mul64 (Math_min (div64 (rampingFrequency stability) (Fin 10)) (Fin 1))
                          (Fin 30)))
            (mul64 (Math_min (div64 (frequencyRegulationNeed stability) (Fin 500)) (Fin 1))
                   (Fin 30)))"

definition economic_raw :: "EconomicMetrics \<Rightarrow> jsnum" where
  "economic_raw economic = Math_round
     (add64 (add64 (mul64 (Math_min (div64 (averageRetailPriceCentsPerKWh economic) (Fin 20))
                             (Fin 1)) (Fin 30))
                   (mul64 (priceVolatilityIndex economic) (Fin 100)))
            (mul64 (Math_min (div64 (estimatedArbitrageRevenue economic) (Fin 100000)) (Fin 1))
                   (Fin 40)))"

definition calculateOpportunityScores ::
  "GridCapacityMetrics \<Rightarrow> DemandSupplyMetrics \<Rightarrow> RenewableIntegrationMetrics \<Rightarrow>
   GridStabilityMetrics \<Rightarrow> EconomicMetrics \<Rightarrow> StorageOpportunityScore" where
  "calculateOpportunityScores gridCap demandSupply renewable stability economic =
     (let peakShaving = peakShaving_raw demandSupply;
          renewableScore = renewable_raw gridCap renewable;
          gridServices = gridServices_raw stability;
          economicSc = economic_raw economic;
          overallScore = Math_round
            (add64 (add64 (add64 (mul64 peakShaving (Fin 0.25))
                                 (mul64 renewableScore (Fin 0.35)))
                          (mul64 gridServices (Fin 0.20)))
                   (mul64 economicSc (Fin 0.20)))
      in \<lparr>overall = Math_min (Math_max overallScore (Fin 0)) (Fin 100),
          peakShavingScore = Math_min (Math_max peakShaving (Fin 0)) (Fin 100),
          renewableIntegrationScore = Math_min (Math_max renewableScore (Fin 0)) (Fin 100),
          gridServicesScore = Math_min (Math_max gridServices (Fin 0)) (Fin 100),
          economicScore = Math_min (Math_max economicSc (Fin 0)) (Fin 100)\<rparr>)"

subsection \<open>analyzeStorageOpportunity\<close>

text \<open>The analysis date is the clock reading \<open>new Date().toISOString()\<close>, an argument here.\<close>

definition analyzeStorageOpportunity ::
  "string \<Rightarrow> string \<Rightarrow> CapacityByFuelData list \<Rightarrow> RTODemandData list \<Rightarrow>
   GenerationData list \<Rightarrow> RetailPriceData list \<Rightarrow> EnergyStorageOpportunityMetrics" where
  "analyzeStorageOpportunity now reg capacityData demandData generationData priceData =
     (let gridCapacity = calculateGridCapacityMetrics capacityData;
          demandSupply = calculateDemandSupplyMetrics demandData generationData;
          renewableIntegration = calculateRenewableMetrics capacityData generationData;
          gridStability = calculateGridStabilityMetrics demandData;
          economicOpportunity = calculateEconomicMetrics priceData demandSupply;
          storageOpportunityScore = calculateOpportunityScores gridCapacity demandSupply
            renewableIntegration gridStability economicOpportunity
      in \<lparr>region = reg,
          analysisDate = now,
          gridCapacity = gridCapacity,
          demandSupplyMetrics = demandSupply,
          renewableIntegration = renewableIntegration,
          gridStability = gridStability,
          economicOpportunity = economicOpportunity,
          storageOpportunityScore = storageOpportunityScore\<rparr>)"

section \<open>CapacityAnalyzer.calculateCapacityUtilization (analysis/capacityAnalyzer.ts)\<close>

record RegionalCapacityMetrics =
  rc_region :: string
  latestPeriod :: string
  totalSummerCapacityMW :: jsnum
  totalWinterCapacityMW :: jsnum

record capacity_utilization =
  utilization :: "jsnum option"
  totalGenerationGWh :: jsnum
  totalConsumptionGWh :: jsnum

definition no_utilization :: capacity_utilization where
  "no_utilization = \<lparr>utilization = None, totalGenerationGWh = Fin 0, totalConsumptionGWh = Fin 0\<rparr>"

definition calculateCapacityUtilization ::
  "RegionalCapacityMetrics \<Rightarrow> GenerationData list \<Rightarrow> capacity_utilization" where
  "calculateCapacityUtilization capacityMetrics generationData =
     (case generationData of
        [] \<Rightarrow> no_utilization
      | first # _ \<Rightarrow>
          if totalSummerCapacityMW capacityMetrics \<le> Fin 0 then no_utilization
          else
            let latestGenerationPeriod = period first;
                latestGenerationData =
                  filter (\<lambda>d. period d = latestGenerationPeriod) generationData;
                totalGenerationMWh =
                  foldl (\<lambda>s g. s + nullish_zero (generation g)) (Fin 0) latestGenerationData;
                totalConsumptionMWh =
                  foldl (\<lambda>s g. s + nullish_zero (total_consumption g)) (Fin 0)
                    latestGenerationData;
                totalHoursInMonth = Fin 30.4375 * Fin 24;
                potentialGenerationMWh =
                  totalSummerCapacityMW capacityMetrics * totalHoursInMonth;
                util = (if Fin 0 < potentialGenerationMWh
                        then Some (totalGenerationMWh / potentialGenerationMWh) else None)
            in \<lparr>utilization =
                  (case util of
                     None \<Rightarrow> None
                   | Some u \<Rightarrow> if truthy u then Some (toFixed 4 u) else None),
                totalGenerationGWh = toFixed 3 (totalGenerationMWh / Fin 1000),
                totalConsumptionGWh = toFixed 3 (totalConsumptionMWh / Fin 1000)\<rparr>)"

section \<open>The tool findHighPotentialEnergyStorageAreas (index.ts)\<close>

subsection \<open>What a repository call can throw\<close>

text \<open>
  \<open>EiaApiClient.get\<close> rethrows every request failure as one error naming the endpoint
  and the reason; \<open>parseAndValidate\<close> throws on a response without data and rethrows the
  schema library's validation error, whose message is the issue list rendered as a JSON
  array.
\<close>

datatype fetch_error =
    RequestFailed string string
  | InvalidStructure string
  | ValidationFailed string

fun error_message :: "fetch_error \<Rightarrow> string" where
  "error_message (RequestFailed path reason) =
     ''Failed to fetch data from EIA endpoint: '' @ path @ ''. Reason: '' @ reason"
| "error_message (InvalidStructure ctxt) =
     ''Invalid response structure from EIA API for '' @ ctxt @ ''.''"
| "error_message (ValidationFailed issues) = ''['' @ issues @ '']''"

text \<open>
  The outcome of each repository call, per region: the error thrown or the records.  When
  several calls for a region reject, \<open>Promise.all\<close> rejects with the error of the call that
  rejects first in time; \<open>rejects_first\<close> says which of the rejected calls that is (its
  position among them, taken modulo their number).
\<close>

record ElectricityRepository =
  getCapacityByFuelType :: "string \<Rightarrow> fetch_error + CapacityByFuelData list"
  getGenerationByFuelType :: "string \<Rightarrow> fetch_error + GenerationData list"
  getRetailPrices :: "string \<Rightarrow> fetch_error + RetailPriceData list"
  getRTODemandData :: "string \<Rightarrow> fetch_error + RTODemandData list"
  rejects_first :: "string \<Rightarrow> nat"

definition rejection :: "fetch_error + 'a \<Rightarrow> fetch_error list" where
  "rejection outcome = (case outcome of Inl e \<Rightarrow> [e] | Inr _ \<Rightarrow> [])"

text \<open>The inner \<open>Promise.all\<close> of the four calls.\<close>

definition fetch_all ::
  "ElectricityRepository \<Rightarrow> bool \<Rightarrow> string \<Rightarrow>
   fetch_error + (CapacityByFuelData list \<times> GenerationData list \<times> RetailPriceData list
                  \<times> RTODemandData list)" where
  "fetch_all repo includeHourlyAnalysis reg =
     (let capacityCall = getCapacityByFuelType repo reg;
          generationCall = getGenerationByFuelType repo reg;
          priceCall = getRetailPrices repo reg;
          demandCall = (if includeHourlyAnalysis then getRTODemandData repo reg else Inr []);
          rejected = rejection capacityCall @ rejection generationCall
                     @ rejection priceCall @ rejection demandCall
      in case (capacityCall, generationCall, priceCall, demandCall) of
           (Inr capacityData, Inr generationData, Inr priceData, Inr demandData) \<Rightarrow>
             Inr (capacityData, generationData, priceData, demandData)
         | _ \<Rightarrow> Inl (rejected ! (rejects_first repo reg mod length rejected)))"

subsection \<open>One region\<close>

datatype RegionalAnalysisResult =
    WithMetrics string EnergyStorageOpportunityMetrics
  | WithError string string

fun has_metrics :: "RegionalAnalysisResult \<Rightarrow> bool" where
  "has_metrics (WithMetrics _ _) = True"
| "has_metrics (WithError _ _) = False"

fun has_error :: "RegionalAnalysisResult \<Rightarrow> bool" where
  "has_error (WithMetrics _ _) = False"
| "has_error (WithError _ _) = True"

text \<open>The body of the \<open>try\<close> for one region, with its \<open>catch\<close>.\<close>

definition analyze_region ::
  "ElectricityRepository \<Rightarrow> bool \<Rightarrow> (string \<Rightarrow> string) \<Rightarrow> string \<Rightarrow> RegionalAnalysisResult" where
  "analyze_region repo includeHourlyAnalysis clock reg =
     (case fetch_all repo includeHourlyAnalysis reg of
        Inl e \<Rightarrow> WithError reg (error_message e)
      | Inr (capacityData, generationData, priceData, demandData) \<Rightarrow>
          if capacityData = [] then WithError reg ''No capacity data found''
          else WithMetrics reg
                 (analyzeStorageOpportunity (clock reg) reg capacityData demandData
                    generationData priceData))"

subsection \<open>Ranking\<close>

text \<open>
  \<open>Array.prototype.sort\<close> with a comparator is a stable sort: \<open>x\<close> stays in front of a
  later \<open>y\<close> unless the comparator is positive.  (With a \<open>NaN\<close> score the comparator is
  not consistent and the order JavaScript produces is implementation-defined.)
\<close>

fun js_insert :: "('a \<Rightarrow> 'a \<Rightarrow> jsnum) \<Rightarrow> 'a \<Rightarrow> 'a list \<Rightarrow> 'a list" where
  "js_insert cmp x [] = [x]"
| "js_insert cmp x (y # ys) =
     (if Fin 0 < cmp x y then y # js_insert cmp x ys else x # y # ys)"

definition js_sort :: "('a \<Rightarrow> 'a \<Rightarrow> jsnum) \<Rightarrow> 'a list \<Rightarrow> 'a list" where
  "js_sort cmp xs = foldr (js_insert cmp) xs []"

definition by_overall_desc ::
  "EnergyStorageOpportunityMetrics \<Rightarrow> EnergyStorageOpportunityMetrics \<Rightarrow> jsnum" where
  "by_overall_desc a b =
     overall (storageOpportunityScore b) - overall (storageOpportunityScore a)"

text \<open>\<open>identifyPrimaryDriver\<close>: a \<open>reduce\<close> without initial value over the four drivers.\<close>

definition identifyPrimaryDriver :: "StorageOpportunityScore \<Rightarrow> string" where
  "identifyPrimaryDriver scores =
     fst (foldl (\<lambda>prev current. if snd prev < snd current then current else prev)
            (''Peak Shaving'', peakShavingScore scores)
            [(''Renewable Integration'', renewableIntegrationScore scores),
             (''Grid Services'', gridServicesScore scores),
             (''Economic Arbitrage'', economicScore scores)])"

record top_opportunity =
  top_region :: string
  overallScore :: jsnum
  primaryDriver :: string

record ranking_summary =
  summary_analysisDate :: string
  regionsAnalyzed :: nat
  successfulAnalyses :: nat
  topOpportunities :: "top_opportunity list"

record ranking =
  summary :: ranking_summary
  detailedResults :: "EnergyStorageOpportunityMetrics list"
  failedRegions :: "(string \<times> string) list"

definition metrics_of :: "RegionalAnalysisResult list \<Rightarrow> EnergyStorageOpportunityMetrics list" where
  "metrics_of results = List.map_filter
     (\<lambda>r. case r of WithMetrics _ m \<Rightarrow> Some m | WithError _ _ \<Rightarrow> None) results"

definition errors_of :: "RegionalAnalysisResult list \<Rightarrow> (string \<times> string) list" where
  "errors_of results = List.map_filter
     (\<lambda>r. case r of WithMetrics _ _ \<Rightarrow> None | WithError reg e \<Rightarrow> Some (reg, e)) results"

definition rank_regions ::
  "ElectricityRepository \<Rightarrow> (string \<Rightarrow> string) \<Rightarrow> string \<Rightarrow> string list \<Rightarrow> bool \<Rightarrow> ranking" where
  "rank_regions repo clock now regions includeHourlyAnalysis =
     (let results = map (analyze_region repo includeHourlyAnalysis clock) regions;
          successful = metrics_of results;
          failedAnalyses = errors_of results;
          sortedResults = js_sort by_overall_desc successful
      in \<lparr>summary =
            \<lparr>summary_analysisDate = now,
             regionsAnalyzed = length regions,
             successfulAnalyses = length successful,
             topOpportunities =
               map (\<lambda>m. \<lparr>top_region = region m,
                          overallScore = overall (storageOpportunityScore m),
                          primaryDriver = identifyPrimaryDriver (storageOpportunityScore m)\<rparr>)
                 (take 3 sortedResults)\<rparr>,
          detailedResults = sortedResults,
          failedRegions = failedAnalyses\<rparr>)"

subsection \<open>execute\<close>

datatype tool_error = UserError string

definition apiKeyErrorMessage :: string where
  "apiKeyErrorMessage = ''Authentication failed: No EIA API key provided in the request context (extraArgs.apiKey) and no fallback EIA_API_KEY found in environment variables.''"

text \<open>\<open>extraArgsApiKey || config.eiaApiKey\<close>: the first key that is present and not empty.\<close>

definition resolve_key :: "string option \<Rightarrow> string option \<Rightarrow> string option" where
  "resolve_key extraArgsApiKey configKey =
     (case extraArgsApiKey of
        Some k \<Rightarrow> if k \<noteq> [] then Some k else configKey
      | None \<Rightarrow> configKey)"

text \<open>
  The tool returns the ranking serialised as JSON; the model returns the object that is
  serialised.  The repository stands for the calls made with the resolved key.
\<close>

definition execute ::
  "string option \<Rightarrow> string option \<Rightarrow> ElectricityRepository \<Rightarrow> (string \<Rightarrow> string) \<Rightarrow> string \<Rightarrow>
   string list \<Rightarrow> bool \<Rightarrow> tool_error + ranking" where
  "execute extraArgsApiKey configKey repo clock now regions includeHourlyAnalysis =
     (case resolve_key extraArgsApiKey configKey of
        None \<Rightarrow> Inl (UserError apiKeyErrorMessage)
      | Some k \<Rightarrow>
          if k = [] then Inl (UserError apiKeyErrorMessage)
          else Inr (rank_regions repo clock now regions includeHourlyAnalysis))"

section \<open>Notions used in the statements\<close>

text \<open>A finite number; a finite number that is not negative; a finite number in [0, 100].\<close>

fun is_finite :: "jsnum \<Rightarrow> bool" where
  "is_finite (Fin a) = True"
| "is_finite _ = False"

fun nonneg_finite :: "jsnum \<Rightarrow> bool" where
  "nonneg_finite (Fin a) = (0 \<le> a)"
| "nonneg_finite _ = False"

fun within_0_100 :: "jsnum \<Rightarrow> bool" where
  "within_0_100 (Fin a) = (0 \<le> a \<and> a \<le> 100)"
| "within_0_100 _ = False"

text \<open>A number that is at least \<open>c\<close>, plus infinity included.\<close>

fun above :: "real \<Rightarrow> jsnum \<Rightarrow> bool" where
  "above c (Fin a) = (c \<le> a)"
| "above c PInf = True"
| "above c _ = False"

text \<open>Every field of the five metric records is finite and not negative.\<close>

definition nonneg_finite_inputs ::
  "GridCapacityMetrics \<Rightarrow> DemandSupplyMetrics \<Rightarrow> RenewableIntegrationMetrics \<Rightarrow>
   GridStabilityMetrics \<Rightarrow> EconomicMetrics \<Rightarrow> bool" where
  "nonneg_finite_inputs gc ds rn st ec =
     (nonneg_finite (totalCapacityMW gc) \<and> nonneg_finite (renewableCapacityMW gc) \<and>
      nonneg_finite (fossilCapacityMW gc) \<and> nonneg_finite (renewablePenetration gc) \<and>
      nonneg_finite (averageDemandMW ds) \<and> nonneg_finite (peakDemandMW ds) \<and>
      nonneg_finite (minimumDemandMW ds) \<and> nonneg_finite (loadFactor ds) \<and>
      nonneg_finite (demandVariabilityIndex ds) \<and>
      nonneg_finite (solarCapacityMW rn) \<and> nonneg_finite (windCapacityMW rn) \<and>
      nonneg_finite (estimatedCurtailmentMWh rn) \<and>
      nonneg_finite (renewableVariabilityIndex rn) \<and> nonneg_finite (duckCurveSeverity rn) \<and>
      nonneg_finite (maxHourlyRampMW st) \<and> nonneg_finite (rampingFrequency st) \<and>
      nonneg_finite (frequencyRegulationNeed st) \<and>
      nonneg_finite (spinningReserveRequirement st) \<and>
      nonneg_finite (averageRetailPriceCentsPerKWh ec) \<and>
      nonneg_finite (priceVolatilityIndex ec) \<and> nonneg_finite (peakOffPeakSpread ec) \<and>
      nonneg_finite (estimatedArbitrageRevenue ec))"

text \<open>Sample metrics: a typical region with a curtailment estimate of 1e9 MWh.\<close>

definition typical_gridCapacity :: GridCapacityMetrics where
  "typical_gridCapacity = \<lparr>totalCapacityMW = Fin 20000, renewableCapacityMW = Fin 8000,
     fossilCapacityMW = Fin 12000, renewablePenetration = Fin 40\<rparr>"

definition typical_demandSupply :: DemandSupplyMetrics where
  "typical_demandSupply = \<lparr>averageDemandMW = Fin 3000, peakDemandMW = Fin 3600,
     minimumDemandMW = Fin 1800, loadFactor = Fin 0.7, demandVariabilityIndex = Fin 0.15\<rparr>"

definition huge_curtailment :: RenewableIntegrationMetrics where
  "huge_curtailment = \<lparr>solarCapacityMW = Fin 8000, windCapacityMW = Fin 0,
     estimatedCurtailmentMWh = Fin 1000000000, renewableVariabilityIndex = Fin 0.7,
     duckCurveSeverity = Fin 1\<rparr>"

definition typical_gridStability :: GridStabilityMetrics where
  "typical_gridStability = \<lparr>maxHourlyRampMW = Fin 500, rampingFrequency = Fin 4,
     frequencyRegulationNeed = Fin 100, spinningReserveRequirement = Fin 300\<rparr>"

definition typical_economic :: EconomicMetrics where
  "typical_economic = \<lparr>averageRetailPriceCentsPerKWh = Fin 10, priceVolatilityIndex = Fin 0.15,
     peakOffPeakSpread = Fin 50, estimatedArbitrageRevenue = Fin 50000\<rparr>"


text \<open>Sample metrics whose only non-zero sub-score is a peak-shaving score of 1.\<close>

definition no_capacity :: GridCapacityMetrics where
  "no_capacity = \<lparr>totalCapacityMW = Fin 0, renewableCapacityMW = Fin 0,
     fossilCapacityMW = Fin 0, renewablePenetration = Fin 0\<rparr>"

definition nearly_flat_demand :: DemandSupplyMetrics where
  "nearly_flat_demand = \<lparr>averageDemandMW = Fin 98, peakDemandMW = Fin 100,
     minimumDemandMW = Fin 96, loadFactor = Fin 0.98, demandVariabilityIndex = Fin 0\<rparr>"

definition no_renewables :: RenewableIntegrationMetrics where
  "no_renewables = \<lparr>solarCapacityMW = Fin 0, windCapacityMW = Fin 0,
     estimatedCurtailmentMWh = Fin 0, renewableVariabilityIndex = Fin 0.4,
     duckCurveSeverity = Fin 0\<rparr>"

definition no_ramps :: GridStabilityMetrics where
  "no_ramps = \<lparr>maxHourlyRampMW = Fin 0, rampingFrequency = Fin 0,
     frequencyRegulationNeed = Fin 0, spinningReserveRequirement = Fin 0\<rparr>"

definition free_power :: EconomicMetrics where
  "free_power = \<lparr>averageRetailPriceCentsPerKWh = Fin 0, priceVolatilityIndex = Fin 0,
     peakOffPeakSpread = Fin 0, estimatedArbitrageRevenue = Fin 0\<rparr>"

text \<open>
  For the trend classifier: a finite or missing argument read as a real, and the deadband
  that the source computes from the previous value.
\<close>

definition number_or_zero :: "real option \<Rightarrow> real" where
  "number_or_zero v = (case v of None \<Rightarrow> 0 | Some a \<Rightarrow> a)"

definition deadband :: "real \<Rightarrow> real" where
  "deadband p = (if 0 < \<bar>p\<bar> then \<bar>p\<bar> * 0.01 else 1)"

text \<open>An hourly record carries a finite number.\<close>

definition has_finite_value :: "RTODemandData \<Rightarrow> bool" where
  "has_finite_value d = (case demand_value d of Some (Fin a) \<Rightarrow> True | _ \<Rightarrow> False)"

text \<open>
  A nullable field that is \<open>null\<close> or a finite number, and its value as a real with
  \<open>null\<close> read as 0.
\<close>

definition finite_or_missing :: "jsnum option \<Rightarrow> bool" where
  "finite_or_missing v = (case v of None \<Rightarrow> True | Some x \<Rightarrow> is_finite x)"

definition real_or_zero :: "jsnum option \<Rightarrow> real" where
  "real_or_zero v = (case v of Some (Fin a) \<Rightarrow> a | _ \<Rightarrow> 0)"

text \<open>Sample records.\<close>

definition hourly :: "jsnum option \<Rightarrow> RTODemandData" where
  "hourly v = \<lparr>rto_period = ''2025-06-01T00'', respondent = ''ERCO'', series_type = ''D'',
     demand_value = v\<rparr>"

definition monthly_generation :: "jsnum option \<Rightarrow> GenerationData" where
  "monthly_generation v = \<lparr>period = ''2025-06'', fueltypeid = Some ''NG'', generation = v,
     total_consumption = None\<rparr>"

definition monthly_price :: "jsnum option \<Rightarrow> RetailPriceData" where
  "monthly_price v = \<lparr>rp_period = ''2025-06'', rp_stateid = ''TX'', sectorid = ''ALL'',
     price = v, sales = None\<rparr>"

definition capacity_100MW :: RegionalCapacityMetrics where
  "capacity_100MW = \<lparr>rc_region = ''TX'', latestPeriod = ''2025-06'',
     totalSummerCapacityMW = Fin 100, totalWinterCapacityMW = Fin 100\<rparr>"

definition idle_month :: GenerationData where
  "idle_month = \<lparr>period = ''2025-06'', fueltypeid = Some ''NG'', generation = Some (Fin 0),
     total_consumption = Some (Fin 0)\<rparr>"

text \<open>
  A capacity record of one fuel, and the sum, in the order of the records, of the summer
  capacities (\<open>|| 0\<close> applied) of the records whose fuel code satisfies a predicate.
\<close>

definition fuel_record :: "string \<Rightarrow> jsnum option \<Rightarrow> CapacityByFuelData" where
  "fuel_record code mw = \<lparr>cf_period = ''2025'', cf_stateid = ''CA'', energy_source_code = code,
     net_summer_capacity_mw = mw, net_winter_capacity_mw = mw\<rparr>"

definition capacity_sum :: "(string \<Rightarrow> bool) \<Rightarrow> CapacityByFuelData list \<Rightarrow> jsnum" where
  "capacity_sum P capacityData =
     js_sum (map (\<lambda>r. or_zero (net_summer_capacity_mw r))
       (filter (\<lambda>r. P (energy_source_code r)) capacityData))"

text \<open>The overall score of a region's metrics, and a list in descending order of it.\<close>

definition overall_of :: "EnergyStorageOpportunityMetrics \<Rightarrow> jsnum" where
  "overall_of m = overall (storageOpportunityScore m)"

definition overall_descending :: "EnergyStorageOpportunityMetrics list \<Rightarrow> bool" where
  "overall_descending ms = sorted_wrt (\<lambda>m n. overall_of n \<le> overall_of m) ms"

text \<open>
  A repository for four regions.  For BB the capacity call and the price call both throw,
  and the price call rejects first; CC has 8000 MW of solar capacity; AA and DD have 100 MW
  of gas capacity, and the one monthly price record of DD has no price (\<open>null\<close>).  No
  region has generation records.
\<close>

definition sample_repository :: ElectricityRepository where
  "sample_repository =
     \<lparr>getCapacityByFuelType = (\<lambda>reg.
         if reg = ''BB'' then Inl (InvalidStructure ''getCapacityByFuelType'')
         else if reg = ''CC'' then Inr [fuel_record ''SUN'' (Some (Fin 8000))]
         else Inr [fuel_record ''NG'' (Some (Fin 100))]),
      getGenerationByFuelType = (\<lambda>reg. Inr []),
      getRetailPrices = (\<lambda>reg.
         if reg = ''BB'' then Inl (RequestFailed ''/v2/electricity/retail-sales/data'' ''timeout'')
         else if reg = ''DD'' then Inr [monthly_price None]
         else Inr []),
      getRTODemandData = (\<lambda>reg. Inr []),
      rejects_first = (\<lambda>reg. 1)\<rparr>"

definition noon :: "string \<Rightarrow> string" where
  "noon reg = ''2025-06-01T12:00:00.000Z''"

text \<open>Demand metrics whose peak-shaving formula gives 300.\<close>

definition volatile_demand :: DemandSupplyMetrics where
  "volatile_demand = \<lparr>averageDemandMW = Fin 100, peakDemandMW = Fin 100,
     minimumDemandMW = Fin 0, loadFactor = Fin 1, demandVariabilityIndex = Fin 1.5\<rparr>"

text \<open>The generation records of the latest period, the period of the first record.\<close>

definition latest_generation :: "GenerationData list \<Rightarrow> GenerationData list" where
  "latest_generation generationData =
     (case generationData of [] \<Rightarrow> []
      | first # _ \<Rightarrow> filter (\<lambda>d. period d = period first) generationData)"

section \<open>Arithmetic on finite numbers\<close>

lemma is_finiteE: "is_finite x \<Longrightarrow> (\<And>a. x = Fin a \<Longrightarrow> P) \<Longrightarrow> P"
  by (cases x) simp_all

lemma Math_min_Fin [simp]: "Math_min (Fin a) (Fin b) = Fin (min a b)"
  by (simp add: Math_min_def min_def)

lemma Math_max_Fin [simp]: "Math_max (Fin a) (Fin b) = Fin (max a b)"
  by (simp add: Math_max_def max_def)

lemma minus_Fin [simp]: "Fin a - Fin b = Fin (a - b)"
  by (simp add: minus_jsnum_def)

lemma less_eq_Fin [simp]: "Fin a \<le> Fin b \<longleftrightarrow> a \<le> b"
  by (auto simp add: less_eq_jsnum_def)

lemma clamp_id: "within_0_100 x \<Longrightarrow> Math_min (Math_max x (Fin 0)) (Fin 100) = x"
  by (cases x) simp_all

section \<open>Overflow\<close>

lemma overflow_bound_pos: "0 < overflow_bound"
  by (simp add: overflow_bound_def)

lemma overflow_bound_gt_100: "100 < overflow_bound"
  by (simp add: overflow_bound_def)

lemmas arith64 = add64_def sub64_def mul64_def div64_def overflow_bound_def

lemma nonneg_finite_above: "nonneg_finite x \<Longrightarrow> above 0 x"
  by (cases x) simp_all

lemma above_mono: "above c x \<Longrightarrow> d \<le> c \<Longrightarrow> above d x"
  by (cases x) simp_all

lemma overflow_above: "- overflow_bound < a \<Longrightarrow> c \<le> a \<Longrightarrow> above c (overflow (Fin a))"
  by (auto simp add: inf_of_sign_def abs_if)

lemma mul64_above_0: "above 0 x \<Longrightarrow> 0 < k \<Longrightarrow> above 0 (mul64 x (Fin k))"
proof (cases x)
  case (Fin a)
  assume "above 0 x" and "0 < k"
  with Fin have "0 \<le> a * k" by simp
  then show ?thesis using Fin overflow_bound_pos
    by (auto simp add: mul64_def inf_of_sign_def abs_if)
qed (simp_all add: mul64_def inf_of_sign_def)

lemma div64_above_0: "above 0 x \<Longrightarrow> 0 < k \<Longrightarrow> above 0 (div64 x (Fin k))"
proof (cases x)
  case (Fin a)
  assume "above 0 x" and "0 < k"
  with Fin have "0 \<le> a / k" by simp
  then show ?thesis using Fin \<open>0 < k\<close> overflow_bound_pos
    by (auto simp add: div64_def inf_of_sign_def abs_if)
qed (simp_all add: div64_def inf_of_sign_def)

lemma add64_above:
  "above a x \<Longrightarrow> above b y \<Longrightarrow> - overflow_bound < a + b \<Longrightarrow> above (a + b) (add64 x y)"
  by (cases x; cases y) (auto simp add: add64_def inf_of_sign_def abs_if)

lemma add64_above_0: "above 0 x \<Longrightarrow> above 0 y \<Longrightarrow> above 0 (add64 x y)"
  using add64_above [of 0 x 0 y] overflow_bound_pos by simp

lemma Math_round_above: "above c x \<Longrightarrow> above (c - 1) (Math_round x)"
proof (cases x)
  case (Fin a)
  assume "above c x"
  with Fin have "c \<le> a" by simp
  moreover have "a - 1 / 2 < of_int \<lfloor>a + 1 / 2\<rfloor>" by linarith
  ultimately show ?thesis using Fin by simp
qed simp_all

lemma clamp_above: "above c x \<Longrightarrow> within_0_100 (Math_min (Math_max x (Fin 0)) (Fin 100))"
  by (cases x) (simp_all add: Math_min_def Math_max_def)

lemma capped_term:
  assumes "above 0 x" and "0 < d" and "0 < k" and "k \<le> 100"
  shows "above 0 (mul64 (Math_min (div64 x (Fin d)) (Fin 1)) (Fin k))"
proof -
  from assms have "above 0 (div64 x (Fin d))" by (simp add: div64_above_0)
  then have "above 0 (Math_min (div64 x (Fin d)) (Fin 1))"
    by (cases "div64 x (Fin d)") (simp_all add: Math_min_def)
  then show ?thesis using assms by (simp add: mul64_above_0)
qed

lemma quarter_above:
  assumes "above (- overflow_bound - 1) x"
  shows "above (- overflow_bound / 2) (mul64 x (Fin 0.25))"
proof (cases x)
  case (Fin a)
  with assms have "- overflow_bound - 1 \<le> a" by simp
  then have "- overflow_bound / 2 \<le> a * 0.25" and "- overflow_bound < a * 0.25"
    using overflow_bound_gt_100 by simp_all
  then have "above (- overflow_bound / 2) (overflow (Fin (a * 0.25)))"
    by (intro overflow_above)
  then show ?thesis using Fin by (simp add: mul64_def del: overflow.simps)
next
  case PInf
  then show ?thesis by (simp add: mul64_def inf_of_sign_def)
qed (use assms in simp_all)

lemma weighted_above:
  assumes "above (-1) x" and "0 < k" and "k \<le> 1"
  shows "above (-1) (mul64 x (Fin k))"
proof (cases x)
  case (Fin a)
  with assms have "-1 \<le> a" by simp
  with assms have "- 1 \<le> a * k"
    by (smt (verit) mult_left_le mult_minus_left mult_nonneg_nonneg mult.commute)
  moreover from this have "- overflow_bound < a * k"
    using overflow_bound_gt_100 by simp
  ultimately have "above (- 1) (overflow (Fin (a * k)))"
    by (intro overflow_above)
  then show ?thesis using Fin by (simp add: mul64_def del: overflow.simps)
next
  case PInf
  with assms show ?thesis by (simp add: mul64_def inf_of_sign_def)
qed (use assms in simp_all)

section \<open>The opportunity scores\<close>

lemma renewable_raw_above:
  assumes "nonneg_finite (renewablePenetration gc)" "nonneg_finite (duckCurveSeverity rn)"
    "nonneg_finite (estimatedCurtailmentMWh rn)"
  shows "above (-1) (renewable_raw gc rn)"
  unfolding renewable_raw_def
  using Math_round_above [of 0] assms
  by (simp add: add64_above_0 mul64_above_0 capped_term nonneg_finite_above)

lemma gridServices_raw_above:
  assumes "nonneg_finite (maxHourlyRampMW st)" "nonneg_finite (rampingFrequency st)"
    "nonneg_finite (frequencyRegulationNeed st)"
  shows "above (-1) (gridServices_raw st)"
  unfolding gridServices_raw_def
  using Math_round_above [of 0] assms
  by (simp add: add64_above_0 capped_term nonneg_finite_above)

lemma economic_raw_above:
  assumes "nonneg_finite (averageRetailPriceCentsPerKWh ec)"
    "nonneg_finite (priceVolatilityIndex ec)" "nonneg_finite (estimatedArbitrageRevenue ec)"
  shows "above (-1) (economic_raw ec)"
  unfolding economic_raw_def
  using Math_round_above [of 0] assms
  by (simp add: add64_above_0 mul64_above_0 capped_term nonneg_finite_above)

lemma peakShaving_raw_above:
  assumes lf: "nonneg_finite (loadFactor ds)" and dvi: "nonneg_finite (demandVariabilityIndex ds)"
    and no: "mul64 (sub64 (Fin 1) (loadFactor ds)) (Fin 50) \<noteq> NInf"
  shows "above (- overflow_bound - 1) (peakShaving_raw ds)"
proof -
  from lf obtain l where l: "loadFactor ds = Fin l" "0 \<le> l"
    by (cases "loadFactor ds") simp_all
  have t1: "above (- overflow_bound) (mul64 (sub64 (Fin 1) (loadFactor ds)) (Fin 50))"
    using no l overflow_bound_gt_100
    by (auto simp add: mul64_def sub64_def inf_of_sign_def abs_if split: if_splits)
  have t2: "above 0 (mul64 (demandVariabilityIndex ds) (Fin 200))"
    using dvi by (simp add: mul64_above_0 nonneg_finite_above)
  obtain a where a: "mul64 (sub64 (Fin 1) (loadFactor ds)) (Fin 50) = Fin a" "- overflow_bound < a"
    using no l overflow_bound_gt_100
    by (auto simp add: mul64_def sub64_def inf_of_sign_def abs_if split: if_splits)
  have "above (- overflow_bound)
          (add64 (mul64 (sub64 (Fin 1) (loadFactor ds)) (Fin 50))
                 (mul64 (demandVariabilityIndex ds) (Fin 200)))"
    using t2 a
    by (cases "mul64 (demandVariabilityIndex ds) (Fin 200)")
      (auto simp add: add64_def inf_of_sign_def abs_if)
  then show ?thesis
    unfolding peakShaving_raw_def using Math_round_above by fastforce
qed

text \<open>
  When every input is finite and not negative and \<open>(1 - loadFactor) * 50\<close> does not
  overflow to minus infinity (any load factor up to about 3.6e306, in particular any load
  factor up to 1), all five scores lie in [0, 100], whatever the size of the other inputs.
\<close>

lemma scores_within_unless_overflow:
  assumes inputs: "nonneg_finite_inputs gc ds rn st ec"
    and no: "mul64 (sub64 (Fin 1) (loadFactor ds)) (Fin 50) \<noteq> NInf"
  shows "within_0_100 (peakShavingScore (calculateOpportunityScores gc ds rn st ec)) \<and>
         within_0_100 (renewableIntegrationScore (calculateOpportunityScores gc ds rn st ec)) \<and>
         within_0_100 (gridServicesScore (calculateOpportunityScores gc ds rn st ec)) \<and>
         within_0_100 (economicScore (calculateOpportunityScores gc ds rn st ec)) \<and>
         within_0_100 (overall (calculateOpportunityScores gc ds rn st ec))"
proof -
  have p: "above (- overflow_bound - 1) (peakShaving_raw ds)"
    using inputs no by (simp add: nonneg_finite_inputs_def peakShaving_raw_above)
  have r: "above (-1) (renewable_raw gc rn)"
    using inputs by (simp add: nonneg_finite_inputs_def renewable_raw_above)
  have g: "above (-1) (gridServices_raw st)"
    using inputs by (simp add: nonneg_finite_inputs_def gridServices_raw_above)
  have e: "above (-1) (economic_raw ec)"
    using inputs by (simp add: nonneg_finite_inputs_def economic_raw_above)
  have s1: "above (- overflow_bound / 2 + - 1)
      (add64 (mul64 (peakShaving_raw ds) (Fin 0.25)) (mul64 (renewable_raw gc rn) (Fin 0.35)))"
    using overflow_bound_gt_100
    by (intro add64_above quarter_above [OF p] weighted_above [OF r]) simp_all
  have s2: "above (- overflow_bound / 2 + - 1 + - 1)
      (add64 (add64 (mul64 (peakShaving_raw ds) (Fin 0.25))
                    (mul64 (renewable_raw gc rn) (Fin 0.35)))
             (mul64 (gridServices_raw st) (Fin 0.20)))"
    using overflow_bound_gt_100
    by (intro add64_above s1 weighted_above [OF g]) simp_all
  have s3: "above (- overflow_bound / 2 + - 1 + - 1 + - 1)
      (add64 (add64 (add64 (mul64 (peakShaving_raw ds) (Fin 0.25))
                           (mul64 (renewable_raw gc rn) (Fin 0.35)))
                    (mul64 (gridServices_raw st) (Fin 0.20)))
             (mul64 (economic_raw ec) (Fin 0.20)))"
    using overflow_bound_gt_100
    by (intro add64_above s2 weighted_above [OF e]) simp_all
  show ?thesis
    using clamp_above [OF p] clamp_above [OF r] clamp_above [OF g] clamp_above [OF e]
      clamp_above [OF Math_round_above [OF s3]]
    by (simp add: calculateOpportunityScores_def Let_def)
qed

lemma typical_raw:
  "peakShaving_raw typical_demandSupply = Fin 45"
  "renewable_raw typical_gridCapacity huge_curtailment = Fin 70"
  "gridServices_raw typical_gridStability = Fin 38"
  "economic_raw typical_economic = Fin 50"
  by (simp_all add: peakShaving_raw_def renewable_raw_def gridServices_raw_def economic_raw_def
      typical_gridCapacity_def typical_demandSupply_def arith64
      huge_curtailment_def typical_gridStability_def typical_economic_def)

text \<open>The scores of the sample region with a curtailment estimate of 1e9 MWh.\<close>

lemma typical_scores:
  "calculateOpportunityScores typical_gridCapacity typical_demandSupply huge_curtailment
     typical_gridStability typical_economic
   = \<lparr>overall = Fin 53, peakShavingScore = Fin 45, renewableIntegrationScore = Fin 70,
      gridServicesScore = Fin 38, economicScore = Fin 50\<rparr>"
  by (simp add: calculateOpportunityScores_def typical_raw arith64 Let_def)

lemma low_scores:
  "calculateOpportunityScores no_capacity nearly_flat_demand no_renewables no_ramps free_power
   = \<lparr>overall = Fin 0, peakShavingScore = Fin 1, renewableIntegrationScore = Fin 0,
      gridServicesScore = Fin 0, economicScore = Fin 0\<rparr>"
  by (simp add: calculateOpportunityScores_def peakShaving_raw_def renewable_raw_def
      gridServices_raw_def economic_raw_def no_capacity_def nearly_flat_demand_def
      no_renewables_def no_ramps_def free_power_def arith64 Let_def)

lemma overall_before_clamping:
  "calculateOpportunityScores no_capacity volatile_demand no_renewables no_ramps free_power
   = \<lparr>overall = Fin 75, peakShavingScore = Fin 100, renewableIntegrationScore = Fin 0,
      gridServicesScore = Fin 0, economicScore = Fin 0\<rparr>"
  by (simp add: calculateOpportunityScores_def peakShaving_raw_def renewable_raw_def
      gridServices_raw_def economic_raw_def no_capacity_def volatile_demand_def
      no_renewables_def no_ramps_def free_power_def arith64 Let_def)



text \<open>
  Claim C2, as stated, fails: the overall score is not the weighted combination itself but
  its rounding to an integer.  With sub-scores 1, 0, 0, 0 the weighted combination is 0.25
  and the overall score is 0.
\<close>

theorem overall_weighted_counterexample:
  "overall (calculateOpportunityScores no_capacity nearly_flat_demand no_renewables no_ramps
      free_power) = Fin 0 \<and>
   Math_min (Math_max
     (add64 (add64 (add64
        (mul64 (peakShavingScore (calculateOpportunityScores no_capacity nearly_flat_demand
           no_renewables no_ramps free_power)) (Fin 0.25))
        (mul64 (renewableIntegrationScore (calculateOpportunityScores no_capacity
           nearly_flat_demand no_renewables no_ramps free_power)) (Fin 0.35)))
        (mul64 (gridServicesScore (calculateOpportunityScores no_capacity nearly_flat_demand
           no_renewables no_ramps free_power)) (Fin 0.20)))
        (mul64 (economicScore (calculateOpportunityScores no_capacity nearly_flat_demand
           no_renewables no_ramps free_power)) (Fin 0.20)))
     (Fin 0)) (Fin 100) = Fin 0.25"
  by (simp add: low_scores arith64)

text \<open>
  Claim C2, amended.  For every set of input metrics, the overall score is the weighted
  combination, with weights 0.25 (peak shaving), 0.35 (renewable integration), 0.20 (grid
  services) and 0.20 (economic), of the four rounded sub-scores before they are clamped,
  rounded to the nearest integer and clamped to [0, 100]; each returned sub-score is its
  rounded value clamped to [0, 100].  Hence, whenever no sub-score is changed by its clamp,
  the overall score is the rounded and clamped weighted combination of the returned
  sub-scores.  The weights sum to 1 and the weight of renewable integration is the largest.
\<close>

theorem overall_weighted_rounded:
  "overall (calculateOpportunityScores gc ds rn st ec) =
     Math_min (Math_max (Math_round
       (add64 (add64 (add64 (mul64 (peakShaving_raw ds) (Fin 0.25))
                            (mul64 (renewable_raw gc rn) (Fin 0.35)))
                     (mul64 (gridServices_raw st) (Fin 0.20)))
              (mul64 (economic_raw ec) (Fin 0.20))))
       (Fin 0)) (Fin 100) \<and>
   peakShavingScore (calculateOpportunityScores gc ds rn st ec) =
     Math_min (Math_max (peakShaving_raw ds) (Fin 0)) (Fin 100) \<and>
   renewableIntegrationScore (calculateOpportunityScores gc ds rn st ec) =
     Math_min (Math_max (renewable_raw gc rn) (Fin 0)) (Fin 100) \<and>
   gridServicesScore (calculateOpportunityScores gc ds rn st ec) =
     Math_min (Math_max (gridServices_raw st) (Fin 0)) (Fin 100) \<and>
   economicScore (calculateOpportunityScores gc ds rn st ec) =
     Math_min (Math_max (economic_raw ec) (Fin 0)) (Fin 100) \<and>
   (within_0_100 (peakShaving_raw ds) \<and> within_0_100 (renewable_raw gc rn) \<and>
    within_0_100 (gridServices_raw st) \<and> within_0_100 (economic_raw ec) \<longrightarrow>
    overall (calculateOpportunityScores gc ds rn st ec) =
      Math_min (Math_max (Math_round
        (add64 (add64 (add64
           (mul64 (peakShavingScore (calculateOpportunityScores gc ds rn st ec)) (Fin 0.25))
           (mul64 (renewableIntegrationScore (calculateOpportunityScores gc ds rn st ec))
              (Fin 0.35)))
           (mul64 (gridServicesScore (calculateOpportunityScores gc ds rn st ec)) (Fin 0.20)))
           (mul64 (economicScore (calculateOpportunityScores gc ds rn st ec)) (Fin 0.20))))
        (Fin 0)) (Fin 100)) \<and>
   (0.25 + 0.35 + 0.20 + 0.20 = (1::real)) \<and>
   (0.25 < (0.35::real)) \<and> (0.20 < (0.35::real))"
  by (simp add: calculateOpportunityScores_def Let_def clamp_id)

text \<open>
  The amended claim at the sample region, and at a peak-shaving formula of 300: the
  returned peak-shaving score is 100 and the overall score is 75, the rounding of
  \<open>300 * 0.25\<close>.
\<close>

theorem overall_weighted_rounded_witness:
  "within_0_100 (peakShaving_raw typical_demandSupply) \<and>
   within_0_100 (renewable_raw typical_gridCapacity huge_curtailment) \<and>
   within_0_100 (gridServices_raw typical_gridStability) \<and>
   within_0_100 (economic_raw typical_economic) \<and>
   overall (calculateOpportunityScores typical_gridCapacity typical_demandSupply huge_curtailment
     typical_gridStability typical_economic) = Fin 53 \<and>
   overall (calculateOpportunityScores no_capacity volatile_demand no_renewables no_ramps
     free_power) = Fin 75"
  using overall_weighted_rounded [of typical_gridCapacity typical_demandSupply huge_curtailment
      typical_gridStability typical_economic]
    overall_weighted_rounded [of no_capacity volatile_demand no_renewables no_ramps free_power]
  by (simp add: typical_raw typical_scores overall_before_clamping)

section \<open>The trend classifier\<close>

text \<open>
  Claim C3, as stated, fails: the deadband is not \<open>max (|previous| * 0.01) 1\<close>.  From 50
  to 50.7 the source reports "up", the difference 0.7 being above 1% of 50, while it is
  below the deadband 1 that the claim gives.
\<close>

theorem getTrend_counterexample:
  "getTrend (Some (Fin 50.7)) (Some (Fin 50)) = Up \<and>
   \<not> (max (\<bar>50\<bar> * 0.01) (1::real) < 50.7 - 50)"
  by (simp add: getTrend_def)

text \<open>
  Claim C3, amended.  For every pair (latest, previous) of finite numbers, a missing value
  counting as 0, the deadband is \<open>|previous| * 0.01\<close> when previous is not 0 and 1 when
  it is 0; the classifier returns "up" exactly when latest - previous exceeds the deadband,
  "down" exactly when latest - previous is below minus the deadband, and "flat" otherwise.
  In particular \<open>getTrend(102, 100)\<close> is "up" and \<open>getTrend(100.5, 100)\<close> is "flat".
\<close>

theorem getTrend_deadband:
  "(getTrend (map_option Fin latest) (map_option Fin previous) = Up \<longleftrightarrow>
      deadband (number_or_zero previous) < number_or_zero latest - number_or_zero previous) \<and>
   (getTrend (map_option Fin latest) (map_option Fin previous) = Down \<longleftrightarrow>
      number_or_zero latest - number_or_zero previous < - deadband (number_or_zero previous)) \<and>
   (getTrend (map_option Fin latest) (map_option Fin previous) = Flat \<longleftrightarrow>
      \<bar>number_or_zero latest - number_or_zero previous\<bar> \<le> deadband (number_or_zero previous)) \<and>
   getTrend (Some (Fin 102)) (Some (Fin 100)) = Up \<and>
   getTrend (Some (Fin 100.5)) (Some (Fin 100)) = Flat"
  by (cases latest; cases previous)
    (auto simp add: getTrend_def number_or_zero_def deadband_def Let_def abs_if)

theorem getTrend_deadband_witness:
  "getTrend (Some (Fin 97)) None = Up \<and> getTrend (Some (Fin 98)) (Some (Fin 100)) = Down"
  using getTrend_deadband [of "Some 97" None] getTrend_deadband [of "Some 98" "Some 100"]
  by (simp add: number_or_zero_def deadband_def)

section \<open>Sums\<close>

lemma foldl_plus_map: "foldl (\<lambda>s x. s + f x) z xs = foldl (+) (z::jsnum) (map f xs)"
  by (induction xs arbitrary: z) simp_all

section \<open>Capacity utilization\<close>

text \<open>The two guards return the null result.\<close>

lemma utilization_guard:
  "generationData = [] \<or> totalSummerCapacityMW capacityMetrics \<le> Fin 0 \<Longrightarrow>
   calculateCapacityUtilization capacityMetrics generationData = no_utilization"
  by (auto simp add: calculateCapacityUtilization_def split: list.splits)

lemma foldl_nullish_finite:
  "list_all (\<lambda>g. finite_or_missing (f g)) xs \<Longrightarrow>
   foldl (\<lambda>s g. s + nullish_zero (f g)) (Fin z) xs
     = Fin (z + sum_list (map (\<lambda>g. real_or_zero (f g)) xs))"
proof (induction xs arbitrary: z)
  case Nil
  then show ?case by simp
next
  case (Cons x xs)
  from Cons.prems have "nullish_zero (f x) = Fin (real_or_zero (f x))"
    by (cases "f x" rule: nullish_zero.cases; cases "the (f x)")
      (simp_all add: finite_or_missing_def real_or_zero_def)
  with Cons show ?case by (simp add: add.assoc)
qed

text \<open>
  Past the guards, and when the generation of the latest period does not sum to 0, the
  ratio is that sum over capacity * 30.4375 * 24, rounded to 4 decimals.
\<close>

lemma utilization_ratio:
  assumes "generationData \<noteq> []" and "totalSummerCapacityMW capacityMetrics = Fin c" and "0 < c"
    and "list_all (\<lambda>g. finite_or_missing (generation g)) (latest_generation generationData)"
    and "sum_list (map (\<lambda>g. real_or_zero (generation g)) (latest_generation generationData)) \<noteq> 0"
  shows "utilization (calculateCapacityUtilization capacityMetrics generationData) =
           Some (Fin (round_dp 4
             (sum_list (map (\<lambda>g. real_or_zero (generation g)) (latest_generation generationData))
              / (c * (30.4375 * 24)))))"
proof -
  from assms(1) obtain first rest where gd: "generationData = first # rest"
    by (cases generationData) auto
  have latest: "latest_generation (first # rest) =
      filter (\<lambda>d. period d = period first) (first # rest)"
    by (simp add: latest_generation_def)
  have fin: "list_all (\<lambda>g. finite_or_missing (generation g))
      (filter (\<lambda>d. period d = period first) (first # rest))"
    using assms(4) latest gd by simp
  have nz: "sum_list (map (\<lambda>g. real_or_zero (generation g))
      (filter (\<lambda>d. period d = period first) (first # rest))) \<noteq> 0"
    using assms(5) latest gd by simp
  show ?thesis
    unfolding gd latest
    using assms(2,3) nz
    by (simp add: calculateCapacityUtilization_def Let_def foldl_nullish_finite [OF fin]
        del: filter.simps)
qed

text \<open>
  Claim C4 does not hold of the source.  With 100 MW of summer capacity and one generation
  record of the latest month that reports 0 MWh, the record list is not empty, the capacity
  is positive and the theoretical potential is positive; yet the result is the guard result
  with a \<open>null\<close> ratio, where the claim gives the ratio 0.  The final
  \<open>utilization ? ... : null\<close> tests truthiness, and 0 is not truthy.
\<close>

theorem idle_month_utilization:
  "calculateCapacityUtilization capacity_100MW [idle_month] = no_utilization \<and>
   Fin 0 < totalSummerCapacityMW capacity_100MW * (Fin 30.4375 * Fin 24)"
  by (simp add: calculateCapacityUtilization_def capacity_100MW_def idle_month_def
      no_utilization_def less_eq_jsnum_def round_dp_def Let_def)

section \<open>Grid stability and demand fallbacks\<close>

lemma finite_or_null_Some_iff:
  "(\<exists>y. finite_or_null (demand_value d) = Some y) \<longleftrightarrow> has_finite_value d"
  by (simp add: finite_or_null_def has_finite_value_def split: option.splits jsnum.splits)

lemma length_numeric_series:
  "length (numeric_series demandData) = length (filter has_finite_value demandData)"
  by (simp add: numeric_series_def map_filter_def finite_or_null_Some_iff)

lemma numeric_series_empty_iff:
  "numeric_series demandData = [] \<longleftrightarrow> filter has_finite_value demandData = []"
  using length_numeric_series [of demandData] by (metis length_0_conv)

text \<open>
  Claim C6.  For every hourly series in which fewer than 2 records carry a finite number
  (the others being \<open>null\<close> or not finite), \<open>calculateGridStabilityMetrics\<close> returns
  exactly the constants maxHourlyRampMW = 500, rampingFrequency = 4,
  frequencyRegulationNeed = 100, spinningReserveRequirement = 300.
\<close>

theorem stability_fallback:
  assumes "length (filter has_finite_value demandData) < 2"
  shows "calculateGridStabilityMetrics demandData =
           \<lparr>maxHourlyRampMW = Fin 500, rampingFrequency = Fin 4,
            frequencyRegulationNeed = Fin 100, spinningReserveRequirement = Fin 300\<rparr>"
  using assms by (simp add: calculateGridStabilityMetrics_def length_numeric_series)

theorem stability_fallback_witness:
  "length (filter has_finite_value [hourly (Some (Fin 41000)), hourly None, hourly (Some NaN)]) < 2 \<and>
   calculateGridStabilityMetrics [hourly (Some (Fin 41000)), hourly None, hourly (Some NaN)] =
     \<lparr>maxHourlyRampMW = Fin 500, rampingFrequency = Fin 4,
      frequencyRegulationNeed = Fin 100, spinningReserveRequirement = Fin 300\<rparr>"
  using stability_fallback [of "[hourly (Some (Fin 41000)), hourly None, hourly (Some NaN)]"]
  by (simp add: has_finite_value_def hourly_def)

lemma generation_fallback_mean:
  "generation_fallback generationData =
     (let mean = js_sum (map (\<lambda>g. or_zero (generation g)) generationData)
                   / Fin (real (max (length generationData) 1))
      in \<lparr>averageDemandMW = Math_round mean,
          peakDemandMW = Math_round (mean * Fin 1.2),
          minimumDemandMW = Math_round (mean * Fin 0.6),
          loadFactor = Fin 0.7,
          demandVariabilityIndex = Fin 0.15\<rparr>)"
proof -
  have "js_or (js_length generationData) (Fin 1) = Fin (real (max (length generationData) 1))"
    by (cases generationData) (simp_all add: js_or_def js_length_def)
  then show ?thesis
    by (simp add: generation_fallback_def js_sum_def foldl_plus_map [symmetric])
qed

text \<open>
  Claim C10.  Whenever the hourly demand series is empty or holds no finite number, the
  demand-supply metrics come from the generation records: with mean the sum of the
  generation values (\<open>null\<close> as 0) divided by \<open>max (record count) 1\<close>, averageDemandMW is
  the rounded mean, peakDemandMW is mean * 1.2 rounded, minimumDemandMW is mean * 0.6
  rounded, loadFactor is 0.7 and demandVariabilityIndex is 0.15.
\<close>

theorem demand_fallback:
  assumes "filter has_finite_value demandData = []"
  shows "calculateDemandSupplyMetrics demandData generationData =
     (let mean = js_sum (map (\<lambda>g. or_zero (generation g)) generationData)
                   / Fin (real (max (length generationData) 1))
      in \<lparr>averageDemandMW = Math_round mean,
          peakDemandMW = Math_round (mean * Fin 1.2),
          minimumDemandMW = Math_round (mean * Fin 0.6),
          loadFactor = Fin 0.7,
          demandVariabilityIndex = Fin 0.15\<rparr>)"
  using assms
  by (simp add: calculateDemandSupplyMetrics_def numeric_series_empty_iff
      generation_fallback_mean Let_def)

theorem demand_fallback_witness:
  "filter has_finite_value [hourly None, hourly (Some PInf)] = [] \<and>
   calculateDemandSupplyMetrics [hourly None, hourly (Some PInf)]
     [monthly_generation (Some (Fin 1000)), monthly_generation None,
      monthly_generation (Some (Fin 2000))] =
     \<lparr>averageDemandMW = Fin 1000, peakDemandMW = Fin 1200, minimumDemandMW = Fin 600,
      loadFactor = Fin 0.7, demandVariabilityIndex = Fin 0.15\<rparr>"
  using demand_fallback [of "[hourly None, hourly (Some PInf)]"
      "[monthly_generation (Some (Fin 1000)), monthly_generation None,
        monthly_generation (Some (Fin 2000))]"]
  by (simp add: has_finite_value_def hourly_def monthly_generation_def js_sum_def js_or_def)

section \<open>Economic metrics\<close>

lemma average_price_field:
  "priceData \<noteq> [] \<Longrightarrow>
   averageRetailPriceCentsPerKWh (calculateEconomicMetrics priceData ds) =
     toFixed 2 (js_sum (map (\<lambda>p. or_zero (price p)) priceData) / js_length priceData)"
  by (simp add: calculateEconomicMetrics_def Let_def js_length_def)

text \<open>
  Claim C7, as stated, fails: the average that is returned has been rounded to 2 decimals.
  For the prices 1, 1 and 2 the arithmetic mean is 4/3 and the estimator returns 1.33.
\<close>

theorem average_price_counterexample:
  "averageRetailPriceCentsPerKWh (calculateEconomicMetrics
     [monthly_price (Some (Fin 1)), monthly_price (Some (Fin 1)), monthly_price (Some (Fin 2))]
     typical_demandSupply) = Fin 1.33 \<and>
   (1 + 1 + 2) / 3 \<noteq> (1.33::real)"
  by (simp add: average_price_field monthly_price_def js_sum_def js_length_def js_or_def
      round_dp_def)

text \<open>
  Claim C7, amended.  For every price series of length at least 1,
  averageRetailPriceCentsPerKWh is the mean of the prices as the source computes it (the
  prices with \<open>null\<close> read as 0 are added from left to right starting at 0, and the sum
  is divided by their number), rounded to 2 decimals by \<open>toFixed(2)\<close>.
\<close>

theorem average_price_rounded:
  assumes "priceData \<noteq> []"
  shows "averageRetailPriceCentsPerKWh (calculateEconomicMetrics priceData ds) =
           toFixed 2 (js_sum (map (\<lambda>p. or_zero (price p)) priceData)
                      / Fin (real (length priceData)))"
  using assms by (simp add: average_price_field js_length_def)

theorem average_price_rounded_witness:
  "[monthly_price (Some (Fin 12.5)), monthly_price None] \<noteq> [] \<and>
   averageRetailPriceCentsPerKWh (calculateEconomicMetrics
     [monthly_price (Some (Fin 12.5)), monthly_price None] typical_demandSupply) = Fin 6.25"
  using average_price_rounded [of "[monthly_price (Some (Fin 12.5)), monthly_price None]"
      typical_demandSupply]
  by (simp add: monthly_price_def js_sum_def js_or_def round_dp_def)

text \<open>
  Claim C8 does not hold of the source.  \<open>basicStats\<close> guards the division
  (\<open>avg !== 0 ? stddev / avg : 0\<close>) and returns zeros for the empty sequence, and so does
  the demand variability; \<open>calculateEconomicMetrics\<close> divides without the guard.  For the
  one-element price series with price 0 the average is 0 and the price volatility index is
  \<open>0 / 0 = NaN\<close>, where the claim gives 0.
\<close>

theorem zero_price_volatility:
  "priceVolatilityIndex
     (calculateEconomicMetrics [monthly_price (Some (Fin 0))] typical_demandSupply) = NaN \<and>
   cov (basicStats [Fin 0]) = Fin 0 \<and>
   basicStats [] = \<lparr>avg = Fin 0, stddev = Fin 0, cov = Fin 0\<rparr>"
  by (simp add: calculateEconomicMetrics_def basicStats_def monthly_price_def js_sum_def
      js_length_def js_or_def Math_pow2_def Let_def)

section \<open>Grid capacity\<close>

lemma renewable_not_fossil: "c \<in> set renewableSources \<Longrightarrow> c \<notin> set fossilSources"
  by (auto simp add: renewableSources_def fossilSources_def)

lemma capacity_step_fields:
  "capacity_step \<lparr>totalCapacity = t, renewableCapacity = n, fossilCapacity = f\<rparr> r =
     \<lparr>totalCapacity = t + or_zero (net_summer_capacity_mw r),
      renewableCapacity =
        (if energy_source_code r \<in> set renewableSources
         then n + or_zero (net_summer_capacity_mw r) else n),
      fossilCapacity =
        (if energy_source_code r \<in> set fossilSources
         then f + or_zero (net_summer_capacity_mw r) else f)\<rparr>"
  using renewable_not_fossil [of "energy_source_code r"]
  by (simp add: capacity_step_def Let_def)

lemma capacity_loop:
  "foldl capacity_step
     \<lparr>totalCapacity = t, renewableCapacity = n, fossilCapacity = f\<rparr> capacityData =
   \<lparr>totalCapacity =
      foldl (+) t (map (\<lambda>r. or_zero (net_summer_capacity_mw r)) capacityData),
    renewableCapacity =
      foldl (+) n (map (\<lambda>r. or_zero (net_summer_capacity_mw r))
        (filter (\<lambda>r. energy_source_code r \<in> set renewableSources) capacityData)),
    fossilCapacity =
      foldl (+) f (map (\<lambda>r. or_zero (net_summer_capacity_mw r))
        (filter (\<lambda>r. energy_source_code r \<in> set fossilSources) capacityData))\<rparr>"
proof (induction capacityData arbitrary: t n f)
  case Nil
  then show ?case by simp
next
  case (Cons r rs)
  show ?case
    by (simp only: foldl_Cons capacity_step_fields Cons.IH) simp
qed

lemma source_sets:
  "set renewableSources = {''SUN'', ''WND'', ''HYD'', ''GEO'', ''BIO'', ''WAS''}"
  "set fossilSources = {''NG'', ''COL'', ''PET'', ''OTH''}"
  by (simp_all add: renewableSources_def fossilSources_def)

lemma grid_capacity_sums:
  "calculateGridCapacityMetrics capacityData =
     \<lparr>totalCapacityMW = Math_round (capacity_sum (\<lambda>c. True) capacityData),
      renewableCapacityMW =
        Math_round (capacity_sum (\<lambda>c. c \<in> set renewableSources) capacityData),
      fossilCapacityMW = Math_round (capacity_sum (\<lambda>c. c \<in> set fossilSources) capacityData),
      renewablePenetration =
        (if Fin 0 < capacity_sum (\<lambda>c. True) capacityData
         then Math_round (capacity_sum (\<lambda>c. c \<in> set renewableSources) capacityData
                          / capacity_sum (\<lambda>c. True) capacityData * Fin 100)
         else Fin 0)\<rparr>"
  by (simp add: calculateGridCapacityMetrics_def capacity_loop capacity_sum_def js_sum_def
      Let_def)

text \<open>
  Claim C9, as stated, fails: the penetration that is returned has been rounded to an
  integer.  For SUN = 1 MW and NG = 2 MW the quotient is 33.33... and the result is 33.
\<close>

theorem renewable_penetration_counterexample:
  "renewablePenetration (calculateGridCapacityMetrics
     [fuel_record ''SUN'' (Some (Fin 1)), fuel_record ''NG'' (Some (Fin 2))]) = Fin 33 \<and>
   1 / (1 + 2) * 100 \<noteq> (33::real)"
  by (simp add: grid_capacity_sums capacity_sum_def js_sum_def js_or_def fuel_record_def
      renewableSources_def)

text \<open>
  Claim C9, amended.  renewablePenetration is
  \<open>Math.round((renewableCapacity / totalCapacity) * 100)\<close> when the total capacity is
  positive and 0 otherwise, where the total capacity is the sum of the summer capacities of
  all records and the renewable capacity the sum over the records with fuel code SUN, WND,
  HYD, GEO, BIO or WAS; the fossil capacity is the sum over the records with fuel code NG,
  COL, PET or OTH, and a record with any other code adds to the total and to neither
  bucket.  For SUN = 8000 MW and NG = 12000 MW renewablePenetration is 40.
\<close>

theorem renewable_penetration_rounded:
  "renewablePenetration (calculateGridCapacityMetrics capacityData) =
     (if Fin 0 < capacity_sum (\<lambda>c. True) capacityData
      then Math_round
             (capacity_sum (\<lambda>c. c \<in> {''SUN'', ''WND'', ''HYD'', ''GEO'', ''BIO'', ''WAS''})
                capacityData
              / capacity_sum (\<lambda>c. True) capacityData * Fin 100)
      else Fin 0) \<and>
   renewableCapacityMW (calculateGridCapacityMetrics capacityData) =
     Math_round (capacity_sum (\<lambda>c. c \<in> {''SUN'', ''WND'', ''HYD'', ''GEO'', ''BIO'', ''WAS''})
       capacityData) \<and>
   fossilCapacityMW (calculateGridCapacityMetrics capacityData) =
     Math_round (capacity_sum (\<lambda>c. c \<in> {''NG'', ''COL'', ''PET'', ''OTH''}) capacityData) \<and>
   totalCapacityMW (calculateGridCapacityMetrics capacityData) =
     Math_round (capacity_sum (\<lambda>c. True) capacityData) \<and>
   renewablePenetration (calculateGridCapacityMetrics
     [fuel_record ''SUN'' (Some (Fin 8000)), fuel_record ''NG'' (Some (Fin 12000))]) = Fin 40"
proof -
  have "renewablePenetration (calculateGridCapacityMetrics
     [fuel_record ''SUN'' (Some (Fin 8000)), fuel_record ''NG'' (Some (Fin 12000))]) = Fin 40"
    by (simp add: grid_capacity_sums capacity_sum_def js_sum_def js_or_def fuel_record_def
        renewableSources_def)
  then show ?thesis
    by (simp add: grid_capacity_sums source_sets)
qed

text \<open>Wind, nuclear, coal without a figure, and gas: the nuclear plant counts in the total only.\<close>

theorem renewable_penetration_rounded_witness:
  "calculateGridCapacityMetrics
     [fuel_record ''WND'' (Some (Fin 300)), fuel_record ''NUC'' (Some (Fin 500)),
      fuel_record ''COL'' None, fuel_record ''NG'' (Some (Fin 200))] =
     \<lparr>totalCapacityMW = Fin 1000, renewableCapacityMW = Fin 300, fossilCapacityMW = Fin 200,
      renewablePenetration = Fin 30\<rparr>"
  using renewable_penetration_rounded
    [of "[fuel_record ''WND'' (Some (Fin 300)), fuel_record ''NUC'' (Some (Fin 500)),
          fuel_record ''COL'' None, fuel_record ''NG'' (Some (Fin 200))]"]
  by (simp add: fuel_record_def capacity_sum_def js_sum_def js_or_def
      GridCapacityMetrics.equality)

section \<open>Ranking regions\<close>

lemma error_message_nonempty: "error_message e \<noteq> []"
  by (cases e) simp_all

text \<open>The error that \<open>fetch_all\<close> reports is one of the errors thrown for the region.\<close>

lemma fetch_all_rejection:
  assumes "fetch_all repo h reg = Inl e"
  shows "e \<in> set (rejection (getCapacityByFuelType repo reg)
                  @ rejection (getGenerationByFuelType repo reg)
                  @ rejection (getRetailPrices repo reg)
                  @ rejection (if h then getRTODemandData repo reg else Inr []))"
proof -
  let ?rejected = "rejection (getCapacityByFuelType repo reg)
                  @ rejection (getGenerationByFuelType repo reg)
                  @ rejection (getRetailPrices repo reg)
                  @ rejection (if h then getRTODemandData repo reg else Inr [])"
  from assms have e: "e = ?rejected ! (rejects_first repo reg mod length ?rejected)"
    and ne: "?rejected \<noteq> []"
    by (auto simp add: fetch_all_def rejection_def Let_def split: sum.splits if_splits)
  from ne have "rejects_first repo reg mod length ?rejected < length ?rejected"
    by simp
  then show ?thesis
    unfolding e by (rule nth_mem)
qed

lemma execute_with_key:
  "resolve_key extraArgsApiKey configKey = Some k \<Longrightarrow> k \<noteq> [] \<Longrightarrow>
   execute extraArgsApiKey configKey repo clock now regions includeHourlyAnalysis =
     Inr (rank_regions repo clock now regions includeHourlyAnalysis)"
  by (simp add: execute_def)

lemma analyze_region_ok:
  "fetch_all repo h reg = Inr (capacityData, generationData, priceData, demandData) \<Longrightarrow>
   capacityData \<noteq> [] \<Longrightarrow>
   analyze_region repo h clock reg =
     WithMetrics reg (analyzeStorageOpportunity (clock reg) reg capacityData demandData
       generationData priceData)"
  by (simp add: analyze_region_def)

lemma analyze_region_failed:
  "fetch_all repo h reg = Inl e \<Longrightarrow>
   analyze_region repo h clock reg = WithError reg (error_message e)"
  by (simp add: analyze_region_def)

lemma region_analyzeStorageOpportunity [simp]:
  "region (analyzeStorageOpportunity now reg c d g p) = reg"
  by (simp add: analyzeStorageOpportunity_def Let_def)

lemma set_js_insert [simp]: "set (js_insert cmp x ys) = insert x (set ys)"
  by (induction ys) auto

lemma set_js_sort [simp]: "set (js_sort cmp xs) = set xs"
  by (induction xs) (simp_all add: js_sort_def)

lemma mset_js_insert [simp]: "mset (js_insert cmp x ys) = add_mset x (mset ys)"
  by (induction ys) auto

lemma mset_js_sort [simp]: "mset (js_sort cmp xs) = mset xs"
  by (induction xs) (simp_all add: js_sort_def)

text \<open>Inserting into a list that is descending by a finite key keeps it descending.\<close>

lemma js_insert_sorted:
  assumes "is_finite (key x)" and "\<forall>y\<in>set ys. is_finite (key y)"
    and "sorted_wrt (\<lambda>m n. key n \<le> key m) ys"
  shows "sorted_wrt (\<lambda>m n. key n \<le> key m) (js_insert (\<lambda>a b. key b - key a) x ys)"
  using assms
proof (induction ys)
  case Nil
  then show ?case by simp
next
  case (Cons y ys)
  from Cons.prems obtain kx ky where kx: "key x = Fin kx" and ky: "key y = Fin ky"
    by (auto elim!: is_finiteE)
  have tail: "\<exists>kz. key z = Fin kz \<and> kz \<le> ky" if "z \<in> set ys" for z
  proof -
    from that Cons.prems obtain kz where kz: "key z = Fin kz"
      by (auto elim!: is_finiteE)
    from that Cons.prems have "key z \<le> key y" by simp
    with kz ky show ?thesis by simp
  qed
  show ?case
  proof (cases "kx < ky")
    case True
    then show ?thesis
      using Cons kx ky by auto
  next
    case False
    then show ?thesis
      using Cons.prems kx ky tail by fastforce
  qed
qed

lemma js_sort_sorted:
  assumes "\<forall>y\<in>set xs. is_finite (key y)"
  shows "sorted_wrt (\<lambda>m n. key n \<le> key m) (js_sort (\<lambda>a b. key b - key a) xs)"
  using assms
proof (induction xs)
  case Nil
  then show ?case by (simp add: js_sort_def)
next
  case (Cons x xs)
  have "js_sort (\<lambda>a b. key b - key a) (x # xs) =
      js_insert (\<lambda>a b. key b - key a) x (js_sort (\<lambda>a b. key b - key a) xs)"
    by (simp add: js_sort_def)
  then show ?case
    using Cons js_insert_sorted [of key x "js_sort (\<lambda>a b. key b - key a) xs"] by simp
qed

text \<open>An overall score is a number in [0, 100] or \<open>NaN\<close>.\<close>

lemma clamp_finite_or_NaN:
  "Math_min (Math_max x (Fin 0)) (Fin 100) \<noteq> NaN \<Longrightarrow>
   is_finite (Math_min (Math_max x (Fin 0)) (Fin 100))"
  by (cases x) (simp_all add: Math_min_def Math_max_def)

lemma overall_finite_or_NaN:
  "overall (calculateOpportunityScores gc ds rn st ec) \<noteq> NaN \<Longrightarrow>
   is_finite (overall (calculateOpportunityScores gc ds rn st ec))"
  by (simp add: calculateOpportunityScores_def Let_def clamp_finite_or_NaN)

lemma metrics_of_analyzed:
  assumes "m \<in> set (metrics_of (map (analyze_region repo h clock) regions))"
  shows "\<exists>now reg c d g p. m = analyzeStorageOpportunity now reg c d g p"
proof -
  from assms obtain reg r where "analyze_region repo h clock reg = WithMetrics r m"
    by (auto simp add: metrics_of_def map_filter_def split: RegionalAnalysisResult.splits)
  then show ?thesis
    by (auto simp add: analyze_region_def split: sum.splits prod.splits if_splits
        intro!: exI)
qed

lemma detailed_results_finite:
  assumes "m \<in> set (metrics_of (map (analyze_region repo h clock) regions))"
    and "overall_of m \<noteq> NaN"
  shows "is_finite (overall_of m)"
proof -
  from metrics_of_analyzed [OF assms(1)] obtain now reg c d g p
    where "m = analyzeStorageOpportunity now reg c d g p" by blast
  with assms(2) show ?thesis
    by (simp add: overall_of_def analyzeStorageOpportunity_def Let_def overall_finite_or_NaN)
qed

lemma detailed_results:
  "detailedResults (rank_regions repo clock now regions h) =
     js_sort (\<lambda>a b. overall_of b - overall_of a)
       (metrics_of (map (analyze_region repo h clock) regions))"
proof -
  have "by_overall_desc = (\<lambda>a b. overall_of b - overall_of a)"
    by (simp add: by_overall_desc_def overall_of_def fun_eq_iff)
  then show ?thesis
    by (simp add: rank_regions_def Let_def)
qed

text \<open>The sample regions: fallback metrics, scores and fetches.\<close>

lemma fallback_metrics:
  "calculateDemandSupplyMetrics [] [] =
     \<lparr>averageDemandMW = Fin 0, peakDemandMW = Fin 0, minimumDemandMW = Fin 0,
      loadFactor = Fin 0.7, demandVariabilityIndex = Fin 0.15\<rparr>"
  "calculateGridStabilityMetrics [] =
     \<lparr>maxHourlyRampMW = Fin 500, rampingFrequency = Fin 4,
      frequencyRegulationNeed = Fin 100, spinningReserveRequirement = Fin 300\<rparr>"
  "calculateEconomicMetrics [] ds =
     \<lparr>averageRetailPriceCentsPerKWh = Fin 10, priceVolatilityIndex = Fin 0.15,
      peakOffPeakSpread = Fin 50, estimatedArbitrageRevenue = Fin 50000\<rparr>"
  by (simp_all add: calculateDemandSupplyMetrics_def generation_fallback_def js_length_def
      js_or_def calculateGridStabilityMetrics_def numeric_series_def map_filter_def
      calculateEconomicMetrics_def Let_def)

lemma fallback_raw:
  "peakShaving_raw (calculateDemandSupplyMetrics [] []) = Fin 45"
  "gridServices_raw (calculateGridStabilityMetrics []) = Fin 38"
  "economic_raw (calculateEconomicMetrics [] ds) = Fin 50"
  by (simp_all add: fallback_metrics peakShaving_raw_def gridServices_raw_def economic_raw_def
      arith64)

lemma missing_price_raw:
  "economic_raw (calculateEconomicMetrics [monthly_price None] ds) = NaN"
  by (simp add: calculateEconomicMetrics_def monthly_price_def js_sum_def js_length_def
      js_or_def Math_pow2_def economic_raw_def round_dp_def arith64 Let_def)

lemma gas_raw:
  "renewable_raw (calculateGridCapacityMetrics [fuel_record ''NG'' (Some (Fin 100))])
     (calculateRenewableMetrics [fuel_record ''NG'' (Some (Fin 100))] []) = Fin 0"
  by (simp add: grid_capacity_sums capacity_sum_def js_sum_def js_or_def fuel_record_def
      renewableSources_def calculateRenewableMetrics_def fuel_capacity_def round_dp_def
      renewable_raw_def arith64 Let_def)

lemma solar_raw:
  "renewable_raw (calculateGridCapacityMetrics [fuel_record ''SUN'' (Some (Fin 8000))])
     (calculateRenewableMetrics [fuel_record ''SUN'' (Some (Fin 8000))] []) = Fin 100"
  by (simp add: grid_capacity_sums capacity_sum_def js_sum_def js_or_def fuel_record_def
      renewableSources_def calculateRenewableMetrics_def fuel_capacity_def round_dp_def
      renewable_raw_def arith64 Let_def)

lemma overall_scores:
  "overall_of (analyzeStorageOpportunity t r [fuel_record ''NG'' (Some (Fin 100))] [] [] [])
     = Fin 29"
  "overall_of (analyzeStorageOpportunity t r [fuel_record ''SUN'' (Some (Fin 8000))] [] [] [])
     = Fin 64"
  "overall_of (analyzeStorageOpportunity t r [fuel_record ''NG'' (Some (Fin 100))] [] []
     [monthly_price None]) = NaN"
  by (simp_all add: overall_of_def analyzeStorageOpportunity_def calculateOpportunityScores_def
      fallback_raw missing_price_raw gas_raw solar_raw arith64 Math_min_def Math_max_def Let_def)

lemma sample_fetches:
  "fetch_all sample_repository False ''AA'' =
     Inr ([fuel_record ''NG'' (Some (Fin 100))], [], [], [])"
  "fetch_all sample_repository False ''BB'' =
     Inl (RequestFailed ''/v2/electricity/retail-sales/data'' ''timeout'')"
  "fetch_all sample_repository False ''CC'' =
     Inr ([fuel_record ''SUN'' (Some (Fin 8000))], [], [], [])"
  "fetch_all sample_repository False ''DD'' =
     Inr ([fuel_record ''NG'' (Some (Fin 100))], [], [monthly_price None], [])"
  by (simp_all add: fetch_all_def sample_repository_def rejection_def)

lemma sample_regions:
  "analyze_region sample_repository False noon ''AA'' = WithMetrics ''AA''
     (analyzeStorageOpportunity (noon ''AA'') ''AA'' [fuel_record ''NG'' (Some (Fin 100))] [] [] [])"
  "analyze_region sample_repository False noon ''CC'' = WithMetrics ''CC''
     (analyzeStorageOpportunity (noon ''CC'') ''CC'' [fuel_record ''SUN'' (Some (Fin 8000))] [] [] [])"
  "analyze_region sample_repository False noon ''DD'' = WithMetrics ''DD''
     (analyzeStorageOpportunity (noon ''DD'') ''DD'' [fuel_record ''NG'' (Some (Fin 100))] [] []
        [monthly_price None])"
  by (simp_all add: analyze_region_def sample_fetches)

lemma ranked_AA_CC:
  "map region (detailedResults (rank_regions sample_repository noon ''2025-06-01'' [''AA'', ''CC'']
     False)) = [''CC'', ''AA''] \<and>
   map overall_of (detailedResults (rank_regions sample_repository noon ''2025-06-01''
     [''AA'', ''CC''] False)) = [Fin 64, Fin 29]"
  by (simp add: detailed_results sample_regions metrics_of_def map_filter_def js_sort_def
      overall_scores)

text \<open>
  What holds of the ranking.  With an API key present the tool does not throw.  For a
  batch of two regions where the fetches for one region succeed with capacity data and a
  repository call for the other region throws, detailedResults holds exactly one entry,
  the metrics of the succeeding region, and failedRegions holds exactly one entry, the
  failing region with the message of the error that was thrown, which is not empty.  For a
  batch of any size, detailedResults is a rearrangement of the metrics of the successful
  regions, and it is in descending order of the overall score whenever no overall score is
  \<open>NaN\<close>.
\<close>

theorem ranking_with_failures:
  assumes "resolve_key extraArgsApiKey configKey = Some k" and "k \<noteq> []"
  shows "execute extraArgsApiKey configKey repo clock now regions h =
           Inr (rank_regions repo clock now regions h) \<and>
         (fetch_all repo h a = Inr (capacityData, generationData, priceData, demandData) \<and>
          capacityData \<noteq> [] \<and> fetch_all repo h b = Inl e \<and>
          (regions = [a, b] \<or> regions = [b, a]) \<longrightarrow>
            detailedResults (rank_regions repo clock now regions h) =
              [analyzeStorageOpportunity (clock a) a capacityData demandData generationData
                 priceData] \<and>
            map region (detailedResults (rank_regions repo clock now regions h)) = [a] \<and>
            failedRegions (rank_regions repo clock now regions h) = [(b, error_message e)] \<and>
            error_message e \<noteq> []) \<and>
         mset (detailedResults (rank_regions repo clock now regions h)) =
           mset (metrics_of (map (analyze_region repo h clock) regions)) \<and>
         ((\<forall>m\<in>set (detailedResults (rank_regions repo clock now regions h)).
             overall_of m \<noteq> NaN) \<longrightarrow>
          overall_descending (detailedResults (rank_regions repo clock now regions h)))"
proof (intro conjI impI)
  show "execute extraArgsApiKey configKey repo clock now regions h =
      Inr (rank_regions repo clock now regions h)"
    using assms by (rule execute_with_key)
next
  assume pair: "fetch_all repo h a = Inr (capacityData, generationData, priceData, demandData) \<and>
    capacityData \<noteq> [] \<and> fetch_all repo h b = Inl e \<and> (regions = [a, b] \<or> regions = [b, a])"
  let ?m = "analyzeStorageOpportunity (clock a) a capacityData demandData generationData
    priceData"
  have "map (analyze_region repo h clock) regions =
      [WithMetrics a ?m, WithError b (error_message e)] \<or>
    map (analyze_region repo h clock) regions =
      [WithError b (error_message e), WithMetrics a ?m]"
    using pair analyze_region_ok [of repo h a capacityData generationData priceData demandData]
      analyze_region_failed [of repo h b e] by auto
  then have d: "detailedResults (rank_regions repo clock now regions h) = [?m]"
    and f: "failedRegions (rank_regions repo clock now regions h) = [(b, error_message e)]"
    by (auto simp add: rank_regions_def metrics_of_def errors_of_def map_filter_def Let_def
        js_sort_def)
  show "detailedResults (rank_regions repo clock now regions h) = [?m]" by (rule d)
  show "map region (detailedResults (rank_regions repo clock now regions h)) = [a]"
    by (simp add: d)
  show "failedRegions (rank_regions repo clock now regions h) = [(b, error_message e)]"
    by (rule f)
  show "error_message e \<noteq> []" by (rule error_message_nonempty)
next
  show "mset (detailedResults (rank_regions repo clock now regions h)) =
      mset (metrics_of (map (analyze_region repo h clock) regions))"
    by (simp add: detailed_results)
next
  assume "\<forall>m\<in>set (detailedResults (rank_regions repo clock now regions h)). overall_of m \<noteq> NaN"
  then have "\<forall>m\<in>set (metrics_of (map (analyze_region repo h clock) regions)).
      is_finite (overall_of m)"
    by (simp add: detailed_results detailed_results_finite)
  then show "overall_descending (detailedResults (rank_regions repo clock now regions h))"
    unfolding overall_descending_def detailed_results by (rule js_sort_sorted)
qed

text \<open>
  The batch AA, BB, where BB fails with the message of the call that rejects first, and
  the batch AA, CC, which is returned as CC (64), AA (29).
\<close>

theorem ranking_with_failures_instance:
  "execute (Some ''key'') None sample_repository noon ''2025-06-01'' [''AA'', ''BB''] False =
     Inr (rank_regions sample_repository noon ''2025-06-01'' [''AA'', ''BB''] False) \<and>
   map region (detailedResults (rank_regions sample_repository noon ''2025-06-01''
     [''AA'', ''BB''] False)) = [''AA''] \<and>
   failedRegions (rank_regions sample_repository noon ''2025-06-01'' [''AA'', ''BB''] False) =
     [(''BB'', ''Failed to fetch data from EIA endpoint: /v2/electricity/retail-sales/data. Reason: timeout'')] \<and>
   overall_descending (detailedResults (rank_regions sample_repository noon ''2025-06-01''
     [''AA'', ''CC''] False)) \<and>
   map overall_of (detailedResults (rank_regions sample_repository noon ''2025-06-01''
     [''AA'', ''CC''] False)) = [Fin 64, Fin 29]"
proof -
  have key: "resolve_key (Some ''key'') None = Some ''key''" "''key'' \<noteq> []"
    by (simp_all add: resolve_key_def)
  have numbers: "\<forall>m\<in>set (detailedResults (rank_regions sample_repository noon ''2025-06-01''
      [''AA'', ''CC''] False)). overall_of m \<noteq> NaN"
    by (simp add: detailed_results sample_regions metrics_of_def map_filter_def
        overall_scores)
  from ranking_with_failures [OF key, of sample_repository noon "''2025-06-01''"
      "[''AA'', ''BB'']" False "''AA''" "[fuel_record ''NG'' (Some (Fin 100))]" "[]" "[]" "[]"
      "''BB''" "RequestFailed ''/v2/electricity/retail-sales/data'' ''timeout''"]
    ranking_with_failures [OF key, of sample_repository noon "''2025-06-01''"
      "[''AA'', ''CC'']" False] numbers ranked_AA_CC
  show ?thesis
    by (simp add: sample_fetches)
qed

text \<open>
  Claim C5 does not hold of the source in its last clause: the successful results are not
  always in descending order of the overall score.  In the batch AA, DD, CC every fetch
  succeeds and the regions score 29, \<open>NaN\<close> and 64: the price of DD is missing, it is read
  as 0, and the price volatility is the unguarded \<open>0 / 0\<close>.  The comparator
  \<open>b.overall - a.overall\<close> is \<open>NaN\<close> next to DD, the sort moves nothing, and 29 stays
  in front of 64.
\<close>

theorem unsorted_ranking:
  "map overall_of (detailedResults (rank_regions sample_repository noon ''2025-06-01''
     [''AA'', ''DD'', ''CC''] False)) = [Fin 29, NaN, Fin 64] \<and>
   \<not> overall_descending (detailedResults (rank_regions sample_repository noon ''2025-06-01''
     [''AA'', ''DD'', ''CC''] False))"
  by (simp add: detailed_results sample_regions metrics_of_def map_filter_def js_sort_def
      overall_scores overall_descending_def less_eq_jsnum_def minus_jsnum_def)

end
